theory Spec2Isabelle
  imports Complex_Main
begin

section \<open>The backing store\<close>

text \<open>
  The handlers of the admin API talk to a relational store and to an authentication
  provider through a client whose calls answer with a \<open>{ data, error, count }\<close> object.
  The store is modelled as a record of tables (lists of rows, in storage order). Each call
  of a handler has a name (its table or service and its operation), and \<open>failing\<close> lists the
  calls that fail while the request is served: a failing call answers with an error, no
  data and no count, and changes nothing. The calls fail one by one, as they do in the
  code, where each \<open>await\<close> has a result of its own.
\<close>

record hospital_row =
  hospital_id :: string
  hospital_name :: string
  hospital_address :: string
  hospital_code :: string
  hospital_created_at :: string
  hospital_updated_at :: string

record user_row =
  user_id :: string
  user_email :: string
  user_full_name :: string
  user_hospital_id :: string
  user_expertise :: "string option"
  user_phone :: "string option"
  is_verified :: bool
  is_admin :: bool
  is_disabled :: bool
  last_login :: "string option"
  user_updated_at :: string

record diagnosis_row =
  diagnosis_id :: string
  diagnosis_hospital_id :: string
  diagnosis_user_id :: string

text \<open>An entry of a ticket's \<open>responses\<close> array.\<close>

record ticket_response =
  response_id :: string
  response_content :: string
  is_admin_response :: bool
  response_created_at :: string

text \<open>A row of \<open>support_tickets\<close>; the column \<open>responses\<close> may hold \<open>null\<close>.\<close>

record ticket_row =
  ticket_id :: string
  ticket_user_id :: string
  ticket_subject :: string
  ticket_message :: string
  ticket_status :: string
  ticket_priority :: string
  ticket_responses :: "ticket_response list option"
  ticket_updated_at :: string

text \<open>An account of the authentication provider.\<close>

record auth_user =
  auth_id :: string
  auth_email :: string
  auth_password :: string
  auth_metadata_disabled :: bool

text \<open>A row of \<open>user_login_history\<close>.\<close>

record login_row =
  login_user_id :: string
  login_time :: string
  login_ip_address :: string

text \<open>
  \<open>session\<close> is the session of the client that makes the calls: the id of the signed-in
  account, if any. \<open>failed_logins\<close> is the state of the failed-login counter.
\<close>

record db =
  hospitals :: "hospital_row list"
  users :: "user_row list"
  diagnoses :: "diagnosis_row list"
  support_tickets :: "ticket_row list"
  auth_users :: "auth_user list"
  user_login_history :: "login_row list"
  failed_logins :: "(string \<times> nat) list"
  session :: "string option"
  failing :: "string list"

definition fails :: "db \<Rightarrow> string \<Rightarrow> bool" where
  "fails d call = (call \<in> set (failing d))"

text \<open>The message of the error object that a failing call returns.\<close>

definition upstream_error :: string where
  "upstream_error = ''upstream request failed''"

text \<open>
  \<open>.select("*", { count: "exact", head: true }).eq(col, v)\<close>: the number of rows whose
  column equals \<open>v\<close>; \<open>count\<close> is \<open>null\<close> when the call fails.
\<close>

definition count_eq :: "db \<Rightarrow> string \<Rightarrow> 'r list \<Rightarrow> ('r \<Rightarrow> string) \<Rightarrow> string \<Rightarrow> nat option" where
  "count_eq d call rows col v =
     (if fails d call then None else Some (length (filter (\<lambda>r. col r = v) rows)))"

text \<open>
  \<open>.select(...).eq(col, v).single()\<close>: the row when exactly one row matches; otherwise
  (no row, several rows, or a failed call) \<open>data\<close> is \<open>null\<close> and \<open>error\<close> is set.
\<close>

definition only_row :: "'r list \<Rightarrow> ('r \<Rightarrow> string) \<Rightarrow> string \<Rightarrow> 'r option" where
  "only_row rows col v = (case filter (\<lambda>r. col r = v) rows of [r] \<Rightarrow> Some r | _ \<Rightarrow> None)"

definition single :: "db \<Rightarrow> string \<Rightarrow> 'r list \<Rightarrow> ('r \<Rightarrow> string) \<Rightarrow> string \<Rightarrow> 'r option" where
  "single d call rows col v = (if fails d call then None else only_row rows col v)"

text \<open>
  \<open>.update(f).eq(col, v)\<close> on a table: every row whose column equals \<open>v\<close> is changed by
  \<open>f\<close>, the others stay, and the order of the rows is kept.
\<close>

definition update_where :: "('r \<Rightarrow> string) \<Rightarrow> string \<Rightarrow> ('r \<Rightarrow> 'r) \<Rightarrow> 'r list \<Rightarrow> 'r list" where
  "update_where col v f rows = map (\<lambda>r. if col r = v then f r else r) rows"

text \<open>JavaScript's \<open>count > 0\<close>, where \<open>null > 0\<close> is \<open>false\<close>.\<close>

definition gt0 :: "nat option \<Rightarrow> bool" where
  "gt0 c = (case c of None \<Rightarrow> False | Some n \<Rightarrow> 0 < n)"

text \<open>JavaScript's \<open>!s\<close> on a string field that may be absent: absent or empty.\<close>

definition falsy :: "string option \<Rightarrow> bool" where
  "falsy s = (case s of None \<Rightarrow> True | Some v \<Rightarrow> v = [])"

text \<open>\<open>s.startsWith(p)\<close>.\<close>

definition startsWith :: "string \<Rightarrow> string \<Rightarrow> bool" where
  "startsWith s p = (take (length p) s = p)"

text \<open>\<open>pathname.split("/").pop()\<close>: what follows the last slash.\<close>

definition last_segment :: "string \<Rightarrow> string" where
  "last_segment s = rev (takeWhile (\<lambda>c. c \<noteq> CHR ''/'') (rev s))"

text \<open>A number in a template literal: its decimal digits.\<close>

fun string_of_nat :: "nat \<Rightarrow> string" where
  "string_of_nat n =
     (if n < 10 then [char_of (48 + n)]
      else string_of_nat (n div 10) @ [char_of (48 + n mod 10)])"

section \<open>Responses\<close>

text \<open>
  The JSON bodies the handlers send: \<open>{ error }\<close>, \<open>{ success: true, message }\<close>,
  \<open>{ success: true, hospital: data }\<close>, \<open>{ hospitals: data, ... }\<close>,
  \<open>{ success: true, user: data }\<close>,
  \<open>{ user, supportTickets, diagnosesCount }\<close> and
  \<open>{ success: true, message, temporaryPassword }\<close>, where \<open>data\<close> may be \<open>null\<close>.
\<close>

datatype payload =
  ErrorBody string
  | SuccessMessage string
  | HospitalBody "hospital_row option"
  | HospitalsBody "hospital_row list"
  | UserBody "user_row option"
  | UserDetailBody user_row "ticket_row list" nat
  | PasswordResetBody string string

record response =
  status :: nat
  body :: payload

text \<open>\<open>NextResponse.json(body, { status })\<close>; the status is 200 when none is given.\<close>

definition json :: "nat \<Rightarrow> payload \<Rightarrow> response" where
  "json s b = \<lparr>status = s, body = b\<rparr>"

section \<open>The hospitals route\<close>

text \<open>
  The calls of this route are named \<open>users.count\<close>, \<open>diagnoses.count\<close>,
  \<open>hospitals.select\<close>, \<open>hospitals.insert\<close>, \<open>hospitals.update\<close> and
  \<open>hospitals.delete\<close>.

  \<open>.from("hospitals").delete().eq("id", hospitalId)\<close>: the error, and the store after.
\<close>

definition delete_hospital :: "string \<Rightarrow> db \<Rightarrow> string option \<times> db" where
  "delete_hospital hid d =
     (if fails d ''hospitals.delete'' then (Some upstream_error, d)
      else (None, d\<lparr>hospitals := filter (\<lambda>h. hospital_id h \<noteq> hid) (hospitals d)\<rparr>))"

text \<open>
  \<open>handleDeleteHospital\<close>: the body's \<open>hospitalId\<close> and the store; the response and the
  store after. Of the two counting calls only \<open>count\<close> is read, their \<open>error\<close> is not:
  after a failed count the comparison \<open>null > 0\<close> is false and the handler goes on.
\<close>

definition handleDeleteHospital :: "string option \<Rightarrow> db \<Rightarrow> response \<times> db" where
  "handleDeleteHospital hospitalId d =
     (case hospitalId of
        None \<Rightarrow> (json 400 (ErrorBody ''Hospital ID is required''), d)
      | Some hid \<Rightarrow>
          if hid = [] then (json 400 (ErrorBody ''Hospital ID is required''), d)
          else if gt0 (count_eq d ''users.count'' (users d) user_hospital_id hid) then
            (json 400 (ErrorBody
               ''Cannot delete hospital with associated users. Please reassign or delete users first.''), d)
          else if gt0 (count_eq d ''diagnoses.count'' (diagnoses d) diagnosis_hospital_id hid) then
            (json 400 (ErrorBody
               ''Cannot delete hospital with associated diagnoses. Please reassign or delete diagnoses first.''), d)
          else
            (case delete_hospital hid d of
               (Some e, d') \<Rightarrow> (json 500 (ErrorBody e), d')
             | (None, d') \<Rightarrow> (json 200 (SuccessMessage ''Hospital deleted successfully''), d')))"

text \<open>
  \<open>.from("hospitals").insert({...}).select().single()\<close>. The store assigns the id of the
  new row (\<open>new_id\<close>); the row is appended.
\<close>

definition insert_hospital ::
  "string \<Rightarrow> hospital_row \<Rightarrow> db \<Rightarrow> (hospital_row option \<times> string option) \<times> db" where
  "insert_hospital new_id row d =
     (if fails d ''hospitals.insert'' then ((None, Some upstream_error), d)
      else ((Some (row\<lparr>hospital_id := new_id\<rparr>), None),
            d\<lparr>hospitals := hospitals d @ [row\<lparr>hospital_id := new_id\<rparr>]\<rparr>))"

text \<open>The fields a handler of this route reads from the parsed body.\<close>

record hospital_body =
  body_id :: "string option"
  body_name :: "string option"
  body_address :: "string option"
  body_code :: "string option"
  body_hospitalId :: "string option"

text \<open>
  \<open>handleCreateHospital\<close>. \<open>now\<close> is \<open>new Date().toISOString()\<close> and \<open>new_id\<close> the id the
  store gives the inserted row. Of the look-up by code only \<open>data\<close> is read: it is
  \<open>null\<close> when no row has the code, when several rows have it and when the call fails,
  and in each of these cases the handler inserts.
\<close>

definition handleCreateHospital ::
  "string \<Rightarrow> string \<Rightarrow> hospital_body \<Rightarrow> db \<Rightarrow> response \<times> db" where
  "handleCreateHospital now new_id b d =
     (if falsy (body_name b) \<or> falsy (body_address b) \<or> falsy (body_code b) then
        (json 400 (ErrorBody ''Name, address, and code are required''), d)
      else
        (case (body_name b, body_address b, body_code b) of
           (Some name, Some address, Some code) \<Rightarrow>
             (case single d ''hospitals.select'' (hospitals d) hospital_code code of
                Some existingHospital \<Rightarrow>
                  (json 400 (ErrorBody ''Hospital code already exists''), d)
              | None \<Rightarrow>
                  (case insert_hospital new_id
                          \<lparr>hospital_id = [], hospital_name = name, hospital_address = address,
                           hospital_code = code, hospital_created_at = now,
                           hospital_updated_at = now\<rparr> d of
                     ((data, Some e), d') \<Rightarrow> (json 500 (ErrorBody e), d')
                   | ((data, None), d') \<Rightarrow> (json 200 (HospitalBody data), d')))
         | _ \<Rightarrow> (json 400 (ErrorBody ''Name, address, and code are required''), d)))"

text \<open>
  \<open>.from("hospitals").update({...}).eq("id", id).select().single()\<close>: the changed row
  and the error.
\<close>

definition update_hospital ::
  "string \<Rightarrow> (hospital_row \<Rightarrow> hospital_row) \<Rightarrow> db \<Rightarrow> (hospital_row option \<times> string option) \<times> db" where
  "update_hospital hid f d =
     (if fails d ''hospitals.update'' then ((None, Some upstream_error), d)
      else
        (let d' = d\<lparr>hospitals := update_where hospital_id hid f (hospitals d)\<rparr>
         in (case single d' ''hospitals.update'' (hospitals d') hospital_id hid of
               None \<Rightarrow> ((None, Some ''JSON object requested, multiple (or no) rows returned''), d')
             | Some row \<Rightarrow> ((Some row, None), d'))))"

text \<open>
  \<open>handleUpdateHospital\<close>. The new code is written as it comes: no other row is looked up
  by it.
\<close>

definition handleUpdateHospital :: "string \<Rightarrow> hospital_body \<Rightarrow> db \<Rightarrow> response \<times> db" where
  "handleUpdateHospital now b d =
     (if falsy (body_id b) \<or> falsy (body_name b) \<or> falsy (body_address b) \<or> falsy (body_code b) then
        (json 400 (ErrorBody ''ID, name, address, and code are required''), d)
      else
        (case (body_id b, body_name b, body_address b, body_code b) of
           (Some hid, Some name, Some address, Some code) \<Rightarrow>
             (case single d ''hospitals.select'' (hospitals d) hospital_id hid of
                None \<Rightarrow> (json 404 (ErrorBody ''Hospital not found''), d)
              | Some existingHospital \<Rightarrow>
                  (case update_hospital hid
                          (\<lambda>h. h\<lparr>hospital_name := name, hospital_address := address,
                                 hospital_code := code, hospital_updated_at := now\<rparr>) d of
                     ((data, Some e), d') \<Rightarrow> (json 500 (ErrorBody e), d')
                   | ((data, None), d') \<Rightarrow> (json 200 (HospitalBody data), d')))
         | _ \<Rightarrow> (json 400 (ErrorBody ''ID, name, address, and code are required''), d)))"

text \<open>
  \<open>handleGetHospitals\<close> reads a page of the table (search term, order and range come
  from the query string) and changes nothing. Only the fact that it answers with rows of
  the table matters here: the model answers with the whole table, and with status 500
  when the call fails.
\<close>

definition handleGetHospitals :: "db \<Rightarrow> response" where
  "handleGetHospitals d =
     (if fails d ''hospitals.select'' then json 500 (ErrorBody upstream_error)
      else json 200 (HospitalsBody (hospitals d)))"

text \<open>
  The route's \<open>handler(req, user)\<close>, exported as \<open>GET\<close>, \<open>POST\<close>, \<open>PATCH\<close> and
  \<open>DELETE\<close>. It returns the promise of the function it dispatches to without awaiting
  it, so its \<open>catch\<close> sees no rejection of that promise: when \<open>req.json()\<close> throws (the
  parsed body is \<open>None\<close>), the handler's own promise rejects and the handler gives no
  response (\<open>None\<close>). The argument \<open>user\<close> is not read.
\<close>

definition hospitals_handler ::
  "string \<Rightarrow> string \<Rightarrow> string \<Rightarrow> hospital_body option \<Rightarrow> db \<Rightarrow> response option \<times> db" where
  "hospitals_handler now new_id method b d =
     (if method = ''GET'' then (Some (handleGetHospitals d), d)
      else if method = ''POST'' then
        (case b of None \<Rightarrow> (None, d)
         | Some parsed \<Rightarrow> (case handleCreateHospital now new_id parsed d of (r, d') \<Rightarrow> (Some r, d')))
      else if method = ''PATCH'' then
        (case b of None \<Rightarrow> (None, d)
         | Some parsed \<Rightarrow> (case handleUpdateHospital now parsed d of (r, d') \<Rightarrow> (Some r, d')))
      else if method = ''DELETE'' then
        (case b of None \<Rightarrow> (None, d)
         | Some parsed \<Rightarrow>
             (case handleDeleteHospital (body_hospitalId parsed) d of (r, d') \<Rightarrow> (Some r, d')))
      else (Some (json 405 (ErrorBody ''Method not allowed'')), d))"

section \<open>The route of one user\<close>

text \<open>
  The body of a \<open>PATCH\<close>: \<open>operation\<close> and the fields of a regular update. \<open>None\<close>
  is \<open>undefined\<close>; \<open>expertise\<close> and \<open>phone\<close> may also be given as \<open>null\<close>.
\<close>

record user_body =
  body_operation :: "string option"
  body_fullName :: "string option"
  body_user_hospitalId :: "string option"
  body_expertise :: "string option option"
  body_phone :: "string option option"
  body_isVerified :: "bool option"
  body_isAdmin :: "bool option"

text \<open>
  The calls of this route are named \<open>handler.users.select\<close> (the look-up of the caller),
  \<open>users.select\<close>, \<open>users.update\<close>, \<open>users.delete\<close>, \<open>support_tickets.select\<close>,
  \<open>diagnoses.count\<close>, \<open>auth.updateUserById\<close> and \<open>auth.deleteUser\<close>.

  \<open>.from("users").update({...}).eq("id", userId)\<close>: the error, and the store after.
\<close>

definition update_user :: "string \<Rightarrow> (user_row \<Rightarrow> user_row) \<Rightarrow> db \<Rightarrow> string option \<times> db" where
  "update_user uid f d =
     (if fails d ''users.update'' then (Some upstream_error, d)
      else (None, d\<lparr>users := update_where user_id uid f (users d)\<rparr>))"

text \<open>
  \<open>supabase.auth.admin.updateUserById(userId, attributes)\<close>: the error (a failed call, or no
  account with this id), and the provider after.
\<close>

definition updateUserById :: "string \<Rightarrow> (auth_user \<Rightarrow> auth_user) \<Rightarrow> db \<Rightarrow> string option \<times> db" where
  "updateUserById uid f d =
     (if fails d ''auth.updateUserById'' then (Some upstream_error, d)
      else if list_ex (\<lambda>a. auth_id a = uid) (auth_users d) then
        (None, d\<lparr>auth_users := update_where auth_id uid f (auth_users d)\<rparr>)
      else (Some ''User not found'', d))"

text \<open>\<open>supabase.auth.admin.deleteUser(userId)\<close>.\<close>

definition deleteUser :: "string \<Rightarrow> db \<Rightarrow> string option \<times> db" where
  "deleteUser uid d =
     (if fails d ''auth.deleteUser'' then (Some upstream_error, d)
      else if list_ex (\<lambda>a. auth_id a = uid) (auth_users d) then
        (None, d\<lparr>auth_users := filter (\<lambda>a. auth_id a \<noteq> uid) (auth_users d)\<rparr>)
      else (Some ''User not found'', d))"

text \<open>The regular update: only the fields that the body provides are written.\<close>

definition updateData :: "string \<Rightarrow> user_body \<Rightarrow> user_row \<Rightarrow> user_row" where
  "updateData now b u =
     (let u1 = (case body_fullName b of None \<Rightarrow> u | Some v \<Rightarrow> u\<lparr>user_full_name := v\<rparr>);
          u2 = (case body_user_hospitalId b of None \<Rightarrow> u1 | Some v \<Rightarrow> u1\<lparr>user_hospital_id := v\<rparr>);
          u3 = (case body_expertise b of None \<Rightarrow> u2 | Some v \<Rightarrow> u2\<lparr>user_expertise := v\<rparr>);
          u4 = (case body_phone b of None \<Rightarrow> u3 | Some v \<Rightarrow> u3\<lparr>user_phone := v\<rparr>);
          u5 = (case body_isVerified b of None \<Rightarrow> u4 | Some v \<Rightarrow> u4\<lparr>is_verified := v\<rparr>);
          u6 = (case body_isAdmin b of None \<Rightarrow> u5 | Some v \<Rightarrow> u5\<lparr>is_admin := v\<rparr>)
      in u6\<lparr>user_updated_at := now\<rparr>)"

text \<open>
  \<open>handleUpdateUser(userId, req, supabase)\<close>. \<open>temporaryPassword\<close> is what
  \<open>generateSecurePassword()\<close> returns. The answers of the two
  \<open>updateUserById(userId, { user_metadata: ... })\<close> calls are not read, and
  \<open>sendWelcomeEmail\<close> only writes to the log.
\<close>

definition handleUpdateUser ::
  "string \<Rightarrow> string \<Rightarrow> string \<Rightarrow> user_body \<Rightarrow> db \<Rightarrow> response \<times> db" where
  "handleUpdateUser now temporaryPassword userId b d =
     (case single d ''users.select'' (users d) user_id userId of
        None \<Rightarrow> (json 404 (ErrorBody ''User not found''), d)
      | Some existingUser \<Rightarrow>
          if body_operation b = Some ''disable'' then
            (case update_user userId (\<lambda>u. u\<lparr>is_disabled := True, user_updated_at := now\<rparr>) d of
               (Some e, d1) \<Rightarrow> (json 500 (ErrorBody e), d1)
             | (None, d1) \<Rightarrow>
                 (json 200 (SuccessMessage ''User disabled successfully''),
                  snd (updateUserById userId (\<lambda>a. a\<lparr>auth_metadata_disabled := True\<rparr>) d1)))
          else if body_operation b = Some ''enable'' then
            (case update_user userId (\<lambda>u. u\<lparr>is_disabled := False, user_updated_at := now\<rparr>) d of
               (Some e, d1) \<Rightarrow> (json 500 (ErrorBody e), d1)
             | (None, d1) \<Rightarrow>
                 (json 200 (SuccessMessage ''User enabled successfully''),
                  snd (updateUserById userId (\<lambda>a. a\<lparr>auth_metadata_disabled := False\<rparr>) d1)))
          else if body_operation b = Some ''resetPassword'' then
            (case updateUserById userId (\<lambda>a. a\<lparr>auth_password := temporaryPassword\<rparr>) d of
               (Some e, d1) \<Rightarrow> (json 500 (ErrorBody e), d1)
             | (None, d1) \<Rightarrow>
                 (json 200 (PasswordResetBody ''Password reset successfully'' temporaryPassword), d1))
          else
            (case update_user userId (updateData now b) d of
               (Some e, d1) \<Rightarrow> (json 500 (ErrorBody e), d1)
             | (None, d1) \<Rightarrow>
                 (case single d1 ''users.update'' (users d1) user_id userId of
                    None \<Rightarrow>
                      (json 500 (ErrorBody ''JSON object requested, multiple (or no) rows returned''), d1)
                  | Some data \<Rightarrow> (json 200 (UserBody (Some data)), d1))))"

text \<open>
  \<open>handleGetUser\<close>: the user's row, the user's tickets (\<open>[]\<close> when the call fails) and
  the number of the user's diagnoses (\<open>0\<close> when the call fails).
\<close>

definition handleGetUser :: "string \<Rightarrow> db \<Rightarrow> response" where
  "handleGetUser userId d =
     (case single d ''users.select'' (users d) user_id userId of
        None \<Rightarrow>
          json 404 (ErrorBody
            (if fails d ''users.select'' then upstream_error
             else ''JSON object requested, multiple (or no) rows returned''))
      | Some userData \<Rightarrow>
          json 200 (UserDetailBody userData
            (if fails d ''support_tickets.select'' then []
             else filter (\<lambda>t. ticket_user_id t = userId) (support_tickets d))
            (case count_eq d ''diagnoses.count'' (diagnoses d) diagnosis_user_id userId of
               None \<Rightarrow> 0 | Some n \<Rightarrow> n)))"

text \<open>
  \<open>handleDeleteUser\<close>. Here the \<open>error\<close> of the counting call is read: a failed count
  is answered with status 500.
\<close>

definition handleDeleteUser :: "string \<Rightarrow> db \<Rightarrow> response \<times> db" where
  "handleDeleteUser userId d =
     (case count_eq d ''diagnoses.count'' (diagnoses d) diagnosis_user_id userId of
        None \<Rightarrow> (json 500 (ErrorBody upstream_error), d)
      | Some diagnosisCount \<Rightarrow>
          if 0 < diagnosisCount then
            (json 400 (ErrorBody (''Cannot delete user with '' @ string_of_nat diagnosisCount @
               '' associated diagnoses. Please reassign or delete the diagnoses first.'')), d)
          else
            (case deleteUser userId d of
               (Some e, d1) \<Rightarrow> (json 500 (ErrorBody e), d1)
             | (None, d1) \<Rightarrow>
                 (if fails d1 ''users.delete'' then (json 500 (ErrorBody upstream_error), d1)
                  else (json 200 (SuccessMessage ''User deleted successfully''),
                        d1\<lparr>users := filter (\<lambda>u. user_id u \<noteq> userId) (users d1)\<rparr>))))"

text \<open>
  The route's \<open>handler(req, user)\<close>, exported as \<open>GET\<close>, \<open>PATCH\<close> and \<open>DELETE\<close>.
  \<open>caller\<close> is \<open>user.id\<close>. The handler fetches the caller's \<open>is_admin\<close> into \<open>data\<close>
  and does not read \<open>data\<close> afterwards. It returns the promise of the function it
  dispatches to without awaiting it, so its \<open>catch\<close> sees no rejection of that promise:
  when \<open>req.json()\<close> throws (the parsed body is \<open>None\<close>), the handler's own promise
  rejects and the handler gives no response (\<open>None\<close>).
\<close>

definition user_handler ::
  "string \<Rightarrow> string \<Rightarrow> string option \<Rightarrow> string \<Rightarrow> string \<Rightarrow> user_body option \<Rightarrow> db
     \<Rightarrow> response option \<times> db" where
  "user_handler now temporaryPassword caller pathname method b d =
     (let data = (case caller of None \<Rightarrow> None
                  | Some uid \<Rightarrow>
                      map_option is_admin (single d ''handler.users.select'' (users d) user_id uid));
          userId = last_segment pathname
      in if userId = [] then (Some (json 400 (ErrorBody ''User ID is required'')), d)
         else if method = ''GET'' then (Some (handleGetUser userId d), d)
         else if method = ''PATCH'' then
           (case b of None \<Rightarrow> (None, d)
            | Some parsed \<Rightarrow>
                (case handleUpdateUser now temporaryPassword userId parsed d of
                   (r, d') \<Rightarrow> (Some r, d')))
         else if method = ''DELETE'' then
           (case handleDeleteUser userId d of (r, d') \<Rightarrow> (Some r, d'))
         else (Some (json 405 (ErrorBody ''Method not allowed'')), d))"

section \<open>The middleware\<close>

text \<open>
  What the middleware answers: a redirect (the path, and the \<open>redirectedFrom\<close> parameter
  when it is set), or the untouched response \<open>res\<close> that lets the request through.
\<close>

datatype middleware_result = Redirect string "string option" | Next

text \<open>
  \<open>middleware(req)\<close>: the store, the session read from the request's cookies (the id
  of the signed-in account) and the path of the request. Its look-up of the signed-in
  user is the call \<open>middleware.users.select\<close>.
\<close>

definition middleware :: "db \<Rightarrow> string option \<Rightarrow> string \<Rightarrow> middleware_result" where
  "middleware d sess pathname =
     (let isAuthRoute =
            (startsWith pathname ''/login'' \<or> startsWith pathname ''/signup'' \<or>
             startsWith pathname ''/reset-password'');
          isAdminRoute = startsWith pathname ''/admin''
      in if sess = None \<and> \<not> isAuthRoute \<and> pathname \<noteq> ''/'' then
           Redirect ''/login'' (Some pathname)
         else if sess \<noteq> None \<and> isAuthRoute then Redirect ''/admin'' None
         else
           (case sess of
              Some uid \<Rightarrow>
                if isAdminRoute then
                  (case single d ''middleware.users.select'' (users d) user_id uid of
                     None \<Rightarrow> Redirect ''/unathorized'' None
                   | Some data \<Rightarrow> if is_admin data then Next else Redirect ''/unathorized'' None)
                else Next
            | None \<Rightarrow> Next))"

text \<open>
  \<open>config.matcher\<close>, the pattern \<open>/((?!_next/static|_next/image|favicon.ico|api/public).*)\<close>:
  the middleware runs on every path whose part after the first slash does not begin with
  \<open>_next/static\<close>, \<open>_next/image\<close>, \<open>api/public\<close>, or \<open>favicon\<close>, one more character
  (the dot of the pattern stands for any character) and \<open>ico\<close>.
\<close>

definition matcher :: "string \<Rightarrow> bool" where
  "matcher pathname =
     (startsWith pathname ''/'' \<and>
      (let rest = drop 1 pathname
       in \<not> (startsWith rest ''_next/static'' \<or> startsWith rest ''_next/image'' \<or>
             (startsWith rest ''favicon'' \<and> 8 \<le> length rest \<and>
              startsWith (drop 8 rest) ''ico'') \<or>
             startsWith rest ''api/public'')))"

text \<open>
  An admin page (\<open>AdminBillingPage\<close>, \<open>AdminDashboardPage\<close> and the others): it renders
  for an admin and redirects everybody else.
\<close>

datatype page_result = PageRedirect string | Rendered

definition admin_page :: "db \<Rightarrow> string option \<Rightarrow> page_result" where
  "admin_page d sess =
     (case sess of
        None \<Rightarrow> PageRedirect ''/login''
      | Some uid \<Rightarrow>
          (case single d ''page.users.select'' (users d) user_id uid of
             None \<Rightarrow> PageRedirect ''/unauthorized''
           | Some userData \<Rightarrow>
               if is_admin userData then Rendered else PageRedirect ''/unauthorized''))"

text \<open>
  A request as the server answers it: the middleware first, when the matcher selects the
  path, and then the route. \<open>/api/admin/users/:id\<close> is served by \<open>user_handler\<close> and
  \<open>/api/admin/hospitals\<close> by \<open>hospitals_handler\<close>; the framework calls an exported
  handler with the request and the route's context, so \<open>user.id\<close> is \<open>undefined\<close>.
  When the handler's promise rejects the framework answers by itself (\<open>Failed\<close>).
\<close>

datatype served = Redirected string | Answered response | Failed

definition serve_user_route ::
  "string \<Rightarrow> string \<Rightarrow> string option \<Rightarrow> string \<Rightarrow> string \<Rightarrow> user_body option \<Rightarrow> db
     \<Rightarrow> served \<times> db" where
  "serve_user_route now temporaryPassword sess pathname method b d =
     (case (if matcher pathname then middleware d sess pathname else Next) of
        Redirect target redirectedFrom \<Rightarrow> (Redirected target, d)
      | Next \<Rightarrow>
          (case user_handler now temporaryPassword None pathname method b d of
             (Some r, d') \<Rightarrow> (Answered r, d')
           | (None, d') \<Rightarrow> (Failed, d')))"

definition serve_hospitals_route ::
  "string \<Rightarrow> string \<Rightarrow> string option \<Rightarrow> string \<Rightarrow> hospital_body option \<Rightarrow> db \<Rightarrow> served \<times> db" where
  "serve_hospitals_route now new_id sess method b d =
     (case (if matcher ''/api/admin/hospitals'' then middleware d sess ''/api/admin/hospitals''
            else Next) of
        Redirect target redirectedFrom \<Rightarrow> (Redirected target, d)
      | Next \<Rightarrow>
          (case hospitals_handler now new_id method b d of
             (Some r, d') \<Rightarrow> (Answered r, d')
           | (None, d') \<Rightarrow> (Failed, d')))"

section \<open>Signing in\<close>

text \<open>
  Modelled from the spec: \<open>security-service\<close> (\<open>getRecentFailedLoginAttempts\<close>,
  \<open>recordFailedLoginAttempt\<close>, \<open>clearFailedLoginAttempts\<close>) is missing from the sources.
  The counter keeps, for an email, the number of failed attempts recorded and not yet
  cleared; reading it answers \<open>{ count, error }\<close>. The window that makes an attempt
  "recent" is not modelled: an attempt counts until it is cleared. Each of the three is a
  call of its own and is named after the function.
\<close>

definition recorded_failures :: "db \<Rightarrow> string \<Rightarrow> nat" where
  "recorded_failures d email = (case map_of (failed_logins d) email of None \<Rightarrow> 0 | Some n \<Rightarrow> n)"

definition getRecentFailedLoginAttempts :: "string \<Rightarrow> db \<Rightarrow> nat \<times> string option" where
  "getRecentFailedLoginAttempts email d =
     (if fails d ''getRecentFailedLoginAttempts'' then (0, Some upstream_error)
      else (recorded_failures d email, None))"

definition recordFailedLoginAttempt :: "string \<Rightarrow> db \<Rightarrow> db" where
  "recordFailedLoginAttempt email d =
     (if fails d ''recordFailedLoginAttempt'' then d
      else d\<lparr>failed_logins :=
               (email, Suc (recorded_failures d email)) #
               filter (\<lambda>p. fst p \<noteq> email) (failed_logins d)\<rparr>)"

definition clearFailedLoginAttempts :: "string \<Rightarrow> db \<Rightarrow> db" where
  "clearFailedLoginAttempts email d =
     (if fails d ''clearFailedLoginAttempts'' then d
      else d\<lparr>failed_logins := filter (\<lambda>p. fst p \<noteq> email) (failed_logins d)\<rparr>)"

text \<open>
  Modelled from the spec: \<open>updateLastLogin\<close> of \<open>user-service\<close> is missing from the
  sources; it stamps the user's last-login timestamp.
\<close>

definition updateLastLogin :: "string \<Rightarrow> string \<Rightarrow> db \<Rightarrow> db" where
  "updateLastLogin uid now d =
     (if fails d ''updateLastLogin'' then d
      else d\<lparr>users := update_where user_id uid (\<lambda>u. u\<lparr>last_login := Some now\<rparr>) (users d)\<rparr>)"

text \<open>
  \<open>supabase.auth.signInWithPassword({ email, password })\<close>: the error message, or the id
  of the account, whose session is then established. The provider does not look at the
  account's metadata.
\<close>

definition signInWithPassword :: "string \<Rightarrow> string \<Rightarrow> db \<Rightarrow> (string + string) \<times> db" where
  "signInWithPassword email password d =
     (if fails d ''auth.signInWithPassword'' then (Inl upstream_error, d)
      else
        (case find (\<lambda>a. auth_email a = email) (auth_users d) of
           None \<Rightarrow> (Inl ''Invalid login credentials'', d)
         | Some a \<Rightarrow>
             if auth_password a = password then (Inr (auth_id a), d\<lparr>session := Some (auth_id a)\<rparr>)
             else (Inl ''Invalid login credentials'', d)))"

text \<open>
  \<open>supabase.auth.signOut()\<close>; \<open>signIn\<close> does not read what it answers. Like every call
  it changes nothing when it fails.
\<close>

definition auth_signOut :: "db \<Rightarrow> db" where
  "auth_signOut d = (if fails d ''auth.signOut'' then d else d\<lparr>session := None\<rparr>)"

text \<open>
  The insert into \<open>user_login_history\<close>, inside its own \<open>try\<close>: a failure is ignored.
\<close>

definition insert_login_history :: "login_row \<Rightarrow> db \<Rightarrow> db" where
  "insert_login_history row d =
     (if fails d ''user_login_history.insert'' then d
      else d\<lparr>user_login_history := user_login_history d @ [row]\<rparr>)"

text \<open>The fields of the form; \<open>formData.get\<close> answers \<open>null\<close> for a field that is absent.\<close>

record sign_in_form =
  form_email :: string
  form_password :: string
  form_hospitalId :: "string option"

datatype sign_in_result = SignInError string | SignInSuccess

text \<open>
  \<open>signIn(formData)\<close>. \<open>now\<close> is \<open>new Date().toISOString()\<close> and \<open>ip\<close> the
  \<open>x-forwarded-for\<close> header or \<open>"unknown"\<close>. The calls answer a failure with an
  error object and do not throw, so the outer \<open>catch\<close> ("An unexpected error occurred")
  has no branch here. After an accepted password the session is established; the branch
  that answers a failed look-up of the user's row ("User profile not found") returns
  without signing out, the two branches after it sign out first.
\<close>

definition signIn :: "string \<Rightarrow> string \<Rightarrow> sign_in_form \<Rightarrow> db \<Rightarrow> sign_in_result \<times> db" where
  "signIn now ip formData d =
     (let email = form_email formData;
          password = form_password formData;
          hospitalId = form_hospitalId formData
      in case getRecentFailedLoginAttempts email d of
           (count, Some securityError) \<Rightarrow> (SignInError ''Security check failed'', d)
         | (count, None) \<Rightarrow>
             if count \<ge> 5 then
               (SignInError
                  ''Too many failed login attempts. Please try again later or reset your password.'', d)
             else
               (case signInWithPassword email password d of
                  (Inl error, d1) \<Rightarrow> (SignInError error, recordFailedLoginAttempt email d1)
                | (Inr uid, d1) \<Rightarrow>
                    (let d2 = clearFailedLoginAttempts email d1
                     in case single d2 ''users.select'' (users d2) user_id uid of
                          None \<Rightarrow> (SignInError ''User profile not found'', d2)
                        | Some userData \<Rightarrow>
                            if is_disabled userData then
                              (SignInError
                                 ''Your account has been disabled. Please contact your administrator.'',
                               auth_signOut d2)
                            else if \<not> falsy hospitalId \<and> Some (user_hospital_id userData) \<noteq> hospitalId then
                              (SignInError ''You do not have access to this hospital'', auth_signOut d2)
                            else
                              (SignInSuccess,
                               insert_login_history
                                 \<lparr>login_user_id = uid, login_time = now, login_ip_address = ip\<rparr>
                                 (updateLastLogin uid now d2)))))"

text \<open>
  A sequence of sign-in attempts, one after the other, each with the calls that fail
  during it; the results, and the store after.
\<close>

fun signIn_all ::
  "(string \<times> string \<times> sign_in_form \<times> string list) list \<Rightarrow> db \<Rightarrow> sign_in_result list \<times> db" where
  "signIn_all [] d = ([], d)"
| "signIn_all ((now, ip, formData, calls) # rest) d =
     (case signIn now ip formData (d\<lparr>failing := calls\<rparr>) of
        (r, d1) \<Rightarrow> (case signIn_all rest d1 of (rs, d2) \<Rightarrow> (r # rs, d2)))"

text \<open>The account that an email signs in to: the id of the first account with this email.\<close>

definition account_of :: "db \<Rightarrow> string \<Rightarrow> string option" where
  "account_of d email = map_option auth_id (find (\<lambda>a. auth_email a = email) (auth_users d))"

definition is_error :: "sign_in_result \<Rightarrow> bool" where
  "is_error r = (case r of SignInError msg \<Rightarrow> True | SignInSuccess \<Rightarrow> False)"

text \<open>The form carries the email and the password of the account \<open>uid\<close>.\<close>

definition valid_credentials :: "db \<Rightarrow> string \<Rightarrow> sign_in_form \<Rightarrow> bool" where
  "valid_credentials d uid formData =
     (case find (\<lambda>a. auth_email a = form_email formData) (auth_users d) of
        None \<Rightarrow> False
      | Some a \<Rightarrow> auth_id a = uid \<and> auth_password a = form_password formData)"

text \<open>The form names no hospital, or the hospital of the user \<open>uid\<close>.\<close>

definition hospital_ok :: "db \<Rightarrow> string \<Rightarrow> string option \<Rightarrow> bool" where
  "hospital_ok d uid hospitalId =
     (falsy hospitalId \<or>
      (case only_row (users d) user_id uid of
         None \<Rightarrow> False
       | Some u \<Rightarrow> hospitalId = Some (user_hospital_id u)))"

text \<open>The email of the form, and the calls that fail, of an attempt.\<close>

definition attempt_email :: "string \<times> string \<times> sign_in_form \<times> string list \<Rightarrow> string" where
  "attempt_email a = (case a of (now, ip, formData, calls) \<Rightarrow> form_email formData)"

definition attempt_calls :: "string \<times> string \<times> sign_in_form \<times> string list \<Rightarrow> string list" where
  "attempt_calls a = (case a of (now, ip, formData, calls) \<Rightarrow> calls)"

section \<open>Support tickets\<close>

text \<open>
  What \<open>.select("responses")\<close> returns for a ticket: an object with the selected column
  only. Reading another property of it gives \<open>undefined\<close>, here \<open>None\<close>.
\<close>

record ticket_selection =
  selected_responses :: "ticket_response list option"
  selected_status :: "string option"

definition select_responses :: "ticket_row \<Rightarrow> ticket_selection" where
  "select_responses t = \<lparr>selected_responses = ticket_responses t, selected_status = None\<rparr>"

text \<open>
  \<open>addSupportTicketResponse(ticketId, response, isAdminResponse)\<close>. \<open>new_id\<close> is
  \<open>crypto.randomUUID()\<close> and \<open>now\<close> is \<open>new Date().toISOString()\<close>. An error of a call
  is thrown and caught: the answer is then \<open>{ ticket: null, error }\<close>, here \<open>Inl\<close>. The
  two calls are named \<open>support_tickets.select\<close> and \<open>support_tickets.update\<close>.
\<close>

definition addSupportTicketResponse ::
  "string \<Rightarrow> string \<Rightarrow> string \<Rightarrow> string \<Rightarrow> bool \<Rightarrow> db \<Rightarrow> (string + ticket_row) \<times> db" where
  "addSupportTicketResponse new_id now ticketId response isAdminResponse d =
     (case map_option select_responses (single d ''support_tickets.select'' (support_tickets d) ticket_id ticketId) of
        None \<Rightarrow> (Inl ''Failed to add response to support ticket'', d)
      | Some ticket \<Rightarrow>
          if fails d ''support_tickets.update'' then
            (Inl ''Failed to add response to support ticket'', d)
          else
          (let newResponse =
                 \<lparr>response_id = new_id, response_content = response,
                  is_admin_response = isAdminResponse, response_created_at = now\<rparr>;
               responses =
                 (case selected_responses ticket of None \<Rightarrow> [] | Some rs \<Rightarrow> rs) @ [newResponse];
               d' = d\<lparr>support_tickets :=
                        update_where ticket_id ticketId
                          (\<lambda>t. if isAdminResponse \<and> selected_status ticket = Some ''open''
                               then t\<lparr>ticket_responses := Some responses, ticket_updated_at := now,
                                      ticket_status := ''in-progress''\<rparr>
                               else t\<lparr>ticket_responses := Some responses, ticket_updated_at := now\<rparr>)
                          (support_tickets d)\<rparr>
           in case single d' ''support_tickets.update'' (support_tickets d') ticket_id ticketId of
                None \<Rightarrow> (Inl ''Failed to add response to support ticket'', d')
              | Some data \<Rightarrow> (Inr data, d')))"

section \<open>Invoices and their list\<close>

text \<open>An invoice, with the columns that the list reads. Amounts are integers, as the prices are.\<close>

record invoice =
  invoice_id :: string
  invoice_number :: string
  invoice_hospital_id :: string
  start_date :: string
  end_date :: string
  total_amount :: int
  invoice_status :: string
  date_generated :: string

text \<open>The invoice table, and the notifications that were sent (the invoice ids).\<close>

record billing_store =
  invoices :: "invoice list"
  notifications :: "string list"

text \<open>
  The changes of status in the state machine of an invoice: \<open>pending\<close> to \<open>sent\<close>, and
  \<open>pending\<close> or \<open>sent\<close> to \<open>paid\<close>.
\<close>

definition transition :: "string \<Rightarrow> string \<Rightarrow> bool" where
  "transition old new =
     ((old = ''pending'' \<and> new = ''sent'') \<or>
      ((old = ''pending'' \<or> old = ''sent'') \<and> new = ''paid''))"

text \<open>
  Modelled from the spec: \<open>updateInvoiceStatus(id, status)\<close> of \<open>billing-service\<close> is
  missing from the sources; the spec names it as a callable service function and gives
  the state machine of \<open>Invoice.status\<close> (pending to sent; pending or sent to paid; "No
  transition ever reverts to pending, and paid is terminal"). The call writes the status
  of the invoices with this id for which the change is one of the state machine, and
  answers with the invoice; when there is no such invoice it writes nothing and answers
  with an error.
\<close>

definition updateInvoiceStatus ::
  "string \<Rightarrow> string \<Rightarrow> billing_store \<Rightarrow> (string + invoice) \<times> billing_store" where
  "updateInvoiceStatus inv_id new_status s =
     (case find (\<lambda>i. invoice_id i = inv_id \<and> transition (invoice_status i) new_status)
             (invoices s) of
        None \<Rightarrow> (Inl ''Failed to update invoice status'', s)
      | Some found \<Rightarrow>
          (Inr (found\<lparr>invoice_status := new_status\<rparr>),
           s\<lparr>invoices :=
                map (\<lambda>i. if invoice_id i = inv_id \<and> transition (invoice_status i) new_status
                         then i\<lparr>invoice_status := new_status\<rparr> else i)
                    (invoices s)\<rparr>))"

text \<open>
  Modelled from the spec: \<open>sendInvoiceEmail(id)\<close> of \<open>billing-service\<close> is missing from
  the sources; in the spec's state machine it is the action "send to hospital", which
  takes a pending invoice to \<open>sent\<close> and triggers the notification. When no invoice with
  this id is pending it writes nothing, notifies nobody and answers with an error.
\<close>

definition sendInvoiceEmail :: "string \<Rightarrow> billing_store \<Rightarrow> (string + unit) \<times> billing_store" where
  "sendInvoiceEmail inv_id s =
     (case find (\<lambda>i. invoice_id i = inv_id \<and> invoice_status i = ''pending'') (invoices s) of
        None \<Rightarrow> (Inl ''Failed to send invoice'', s)
      | Some found \<Rightarrow>
          (Inr (),
           s\<lparr>invoices :=
                map (\<lambda>i. if invoice_id i = inv_id \<and> invoice_status i = ''pending''
                         then i\<lparr>invoice_status := ''sent''\<rparr> else i)
                    (invoices s),
              notifications := notifications s @ [inv_id]\<rparr>))"

text \<open>
  \<open>InvoicesList\<close>. The two buttons of an invoice's row are rendered under these
  conditions (the preview dialog repeats the first). The invoice is the one of the
  \<open>invoices\<close> prop, as it was fetched when the page was rendered.
\<close>

definition send_button_shown :: "bool \<Rightarrow> invoice \<Rightarrow> bool" where
  "send_button_shown isAdmin invoice = (isAdmin \<and> invoice_status invoice = ''pending'')"

definition paid_button_shown :: "bool \<Rightarrow> invoice \<Rightarrow> bool" where
  "paid_button_shown isAdmin invoice =
     (isAdmin \<and> (invoice_status invoice = ''pending'' \<or> invoice_status invoice = ''sent''))"

text \<open>
  \<open>handleSendInvoice\<close> and \<open>handleMarkAsPaid\<close>: the call with the id of the listed
  invoice, then a toast; what remains is the store after the call.
\<close>

definition handleSendInvoice :: "invoice \<Rightarrow> billing_store \<Rightarrow> billing_store" where
  "handleSendInvoice invoice s = snd (sendInvoiceEmail (invoice_id invoice) s)"

definition handleMarkAsPaid :: "invoice \<Rightarrow> billing_store \<Rightarrow> billing_store" where
  "handleMarkAsPaid invoice s = snd (updateInvoiceStatus (invoice_id invoice) ''paid'' s)"

text \<open>
  A client of the billing pages: the store it talks to (\<open>saved\<close>) and the \<open>invoices\<close> prop
  of the list it shows (\<open>shown\<close>), which is as old as the last rendering of the page.
\<close>

record client =
  saved :: billing_store
  shown :: "invoice list"

text \<open>
  What can happen: the page is rendered again (\<open>window.location.reload()\<close> after an
  action, or any other reload); one of the two buttons in row \<open>k\<close> of the shown list is
  pressed; or one of the two service functions is called directly, with any arguments, as
  another client or another tab does. A button is disabled only while its own action is
  under way, so a press may follow a press before the page is rendered again: the reload
  after an action is an operation of its own here. A press on a button that is not
  rendered is no action.
\<close>

datatype button = SendButton | PaidButton

datatype operation =
  Reload
  | Press button nat
  | CallSendInvoiceEmail string
  | CallUpdateInvoiceStatus string string

definition step :: "bool \<Rightarrow> operation \<Rightarrow> client \<Rightarrow> client" where
  "step isAdmin a c =
     (case a of
        Reload \<Rightarrow> c\<lparr>shown := invoices (saved c)\<rparr>
      | Press SendButton k \<Rightarrow>
          if k < length (shown c) \<and> send_button_shown isAdmin (shown c ! k)
          then c\<lparr>saved := handleSendInvoice (shown c ! k) (saved c)\<rparr> else c
      | Press PaidButton k \<Rightarrow>
          if k < length (shown c) \<and> paid_button_shown isAdmin (shown c ! k)
          then c\<lparr>saved := handleMarkAsPaid (shown c ! k) (saved c)\<rparr> else c
      | CallSendInvoiceEmail inv_id \<Rightarrow> c\<lparr>saved := snd (sendInvoiceEmail inv_id (saved c))\<rparr>
      | CallUpdateInvoiceStatus inv_id new_status \<Rightarrow>
          c\<lparr>saved := snd (updateInvoiceStatus inv_id new_status (saved c))\<rparr>)"







section \<open>Billing figures\<close>

text \<open>
  A JavaScript number that comes out of a division: a number, \<open>NaN\<close>, or an infinity
  with its sign. Rounding is not modelled.
\<close>

datatype jsnum = Num rat | NaN | Infinity bool

definition js_div :: "rat \<Rightarrow> rat \<Rightarrow> jsnum" where
  "js_div a b = (if b = 0 then (if a = 0 then NaN else Infinity (0 < a)) else Num (a / b))"

text \<open>\<open>x * k\<close> for a positive number \<open>k\<close>.\<close>

definition js_times :: "jsnum \<Rightarrow> rat \<Rightarrow> jsnum" where
  "js_times x k = (case x of Num a \<Rightarrow> Num (a * k) | NaN \<Rightarrow> NaN | Infinity positive \<Rightarrow> Infinity positive)"

text \<open>
  A diagnosis as the aggregator fetches it: its creation time, its hospital, the embedded
  hospital metadata (name and code; \<open>None\<close> when the lookup fails) and the scan type of
  its patient metadata.
\<close>

record billed_diagnosis =
  billed_id :: string
  billed_created_at :: nat
  billed_hospital_id :: string
  billed_hospital :: "(string \<times> string) option"
  billed_scan_type :: "string option"

text \<open>
  A summary: the total, the number of diagnoses, and the counts and costs per category,
  as objects whose keys stand in the order of their first use.
\<close>

record summary =
  totalAmount :: int
  totalDiagnoses :: nat
  diagnosisCounts :: "(string \<times> nat) list"
  diagnosisCosts :: "(string \<times> int) list"

text \<open>The summary of one hospital: the same shape, with the hospital and its diagnoses.\<close>

record hospital_summary = summary +
  hospitalId :: string
  hospitalName :: string
  hospitalCode :: string
  hospital_diagnoses :: "billed_diagnosis list"

record billing_data =
  overall :: summary
  hospital_summaries :: "hospital_summary list"

text \<open>\<open>obj[key] = (obj[key] || 0) + v\<close> on an object.\<close>

fun add_to :: "string \<Rightarrow> 'a::monoid_add \<Rightarrow> (string \<times> 'a) list \<Rightarrow> (string \<times> 'a) list" where
  "add_to key v [] = [(key, v)]"
| "add_to key v ((k, x) # obj) =
     (if k = key then (k, x + v) # obj else (k, x) # add_to key v obj)"

text \<open>
  Modelled from the spec: \<open>getBillingData\<close> of \<open>billing-service\<close> is missing from the
  sources. The category of a diagnosis is its scan type, or the default category when
  there is none; its cost is the unit cost that the price table gives the category; counts
  and costs are accumulated per category, per hospital and overall. The price table
  \<open>unit_cost\<close> (integer amounts) and the default category are parameters.
\<close>

definition category :: "string \<Rightarrow> billed_diagnosis \<Rightarrow> string" where
  "category default_category dx =
     (if falsy (billed_scan_type dx) then default_category
      else (case billed_scan_type dx of Some t \<Rightarrow> t | None \<Rightarrow> default_category))"

definition empty_summary :: summary where
  "empty_summary = \<lparr>totalAmount = 0, totalDiagnoses = 0, diagnosisCounts = [], diagnosisCosts = []\<rparr>"

definition account :: "string \<Rightarrow> int \<Rightarrow> 'a summary_scheme \<Rightarrow> 'a summary_scheme" where
  "account cat amount s =
     s\<lparr>totalAmount := totalAmount s + amount,
       totalDiagnoses := totalDiagnoses s + 1,
       diagnosisCounts := add_to cat 1 (diagnosisCounts s),
       diagnosisCosts := add_to cat amount (diagnosisCosts s)\<rparr>"

definition new_hospital_summary :: "billed_diagnosis \<Rightarrow> hospital_summary" where
  "new_hospital_summary dx =
     \<lparr>totalAmount = 0, totalDiagnoses = 0, diagnosisCounts = [], diagnosisCosts = [],
      hospitalId = billed_hospital_id dx,
      hospitalName = (case billed_hospital dx of None \<Rightarrow> ''Unknown'' | Some (name, code) \<Rightarrow> name),
      hospitalCode = (case billed_hospital dx of None \<Rightarrow> ''Unknown'' | Some (name, code) \<Rightarrow> code),
      hospital_diagnoses = []\<rparr>"

fun account_hospital ::
  "string \<Rightarrow> int \<Rightarrow> billed_diagnosis \<Rightarrow> hospital_summary list \<Rightarrow> hospital_summary list" where
  "account_hospital cat amount dx [] =
     [account cat amount ((new_hospital_summary dx)\<lparr>hospital_diagnoses := [dx]\<rparr>)]"
| "account_hospital cat amount dx (h # hs) =
     (if hospitalId h = billed_hospital_id dx
      then account cat amount (h\<lparr>hospital_diagnoses := hospital_diagnoses h @ [dx]\<rparr>) # hs
      else h # account_hospital cat amount dx hs)"

definition aggregate :: "(string \<Rightarrow> int) \<Rightarrow> string \<Rightarrow> billed_diagnosis list \<Rightarrow> billing_data" where
  "aggregate unit_cost default_category dxs =
     foldl (\<lambda>acc dx.
              (let cat = category default_category dx; amount = unit_cost cat
               in \<lparr>overall = account cat amount (overall acc),
                   hospital_summaries = account_hospital cat amount dx (hospital_summaries acc)\<rparr>))
       \<lparr>overall = empty_summary, hospital_summaries = []\<rparr> dxs"

text \<open>The diagnoses of the date range, and of the hospital when one is given.\<close>

definition matching :: "string option \<Rightarrow> nat \<Rightarrow> nat \<Rightarrow> billed_diagnosis list \<Rightarrow> billed_diagnosis list" where
  "matching hospital startDate endDate dxs =
     filter (\<lambda>dx. startDate \<le> billed_created_at dx \<and> billed_created_at dx \<le> endDate \<and>
                  (case hospital of None \<Rightarrow> True | Some hid \<Rightarrow> billed_hospital_id dx = hid)) dxs"

text \<open>
  \<open>getBillingData({ hospitalId, startDate, endDate })\<close>: \<open>stored\<close> is what the query
  finds in the store, \<open>None\<close> when the query fails; the answer is the error, or the data.
\<close>

definition getBillingData ::
  "(string \<Rightarrow> int) \<Rightarrow> string \<Rightarrow> string option \<Rightarrow> nat \<Rightarrow> nat \<Rightarrow> billed_diagnosis list option
     \<Rightarrow> string + billing_data" where
  "getBillingData unit_cost default_category hospital startDate endDate stored =
     (case stored of
        None \<Rightarrow> Inl ''Failed to fetch billing data''
      | Some dxs \<Rightarrow> Inr (aggregate unit_cost default_category (matching hospital startDate endDate dxs)))"

text \<open>
  \<open>AdminBillingDashboard\<close>: \<open>overallStats\<close> is the overall summary of the billing data,
  or a summary of zeros when there is no billing data.
\<close>

definition overallStats :: "billing_data option \<Rightarrow> summary" where
  "overallStats billingData =
     (case billingData of
        None \<Rightarrow> \<lparr>totalAmount = 0, totalDiagnoses = 0, diagnosisCounts = [], diagnosisCosts = []\<rparr>
      | Some data \<Rightarrow> overall data)"

text \<open>
  \<open>AdminHospitalBillingTable\<close>: the total of the table, and the value of a row's
  progress bar, \<open>totalAmount > 0 ? (hospital.totalAmount / totalAmount) * 100 : 0\<close>.
\<close>

definition table_totalAmount :: "hospital_summary list \<Rightarrow> int" where
  "table_totalAmount hs = foldl (\<lambda>sum hospital. sum + totalAmount hospital) 0 hs"

definition percentage :: "int \<Rightarrow> int \<Rightarrow> jsnum" where
  "percentage hospital_totalAmount table_total =
     (if table_total > 0
      then js_times (js_div (of_int hospital_totalAmount) (of_int table_total)) 100
      else Num 0)"

text \<open>
  The text beside the bar,
  \<open>{totalAmount > 0 ? ((hospital.totalAmount / totalAmount) * 100).toFixed(1) : 0}%\<close>;
  \<open>toFixed1\<close> stands for \<open>toFixed(1)\<close>.
\<close>

definition percentage_label :: "(jsnum \<Rightarrow> string) \<Rightarrow> int \<Rightarrow> int \<Rightarrow> string" where
  "percentage_label toFixed1 hospital_totalAmount table_total =
     (if table_total > 0
      then toFixed1 (js_times (js_div (of_int hospital_totalAmount) (of_int table_total)) 100)
      else ''0'') @ ''%''"

text \<open>The percentages of the rows of a table.\<close>

definition table_percentages :: "hospital_summary list \<Rightarrow> jsnum list" where
  "table_percentages hs = map (\<lambda>hospital. percentage (totalAmount hospital) (table_totalAmount hs)) hs"

section \<open>A store to run the handlers on\<close>

text \<open>
  Two hospitals; \<open>u1\<close> is an admin of the first, \<open>u2\<close> is a doctor of the first and not
  an admin; the second hospital has no user and no diagnosis. One open ticket of \<open>u2\<close>.
  No call fails.
\<close>

definition example_db :: db where
  "example_db =
     \<lparr>hospitals =
        [\<lparr>hospital_id = ''h1'', hospital_name = ''General Hospital'', hospital_address = ''Kigali'',
          hospital_code = ''HSP-00001'', hospital_created_at = ''2024-01-01'',
          hospital_updated_at = ''2024-01-01''\<rparr>,
         \<lparr>hospital_id = ''h2'', hospital_name = ''District Hospital'', hospital_address = ''Huye'',
          hospital_code = ''HSP-00002'', hospital_created_at = ''2024-01-02'',
          hospital_updated_at = ''2024-01-02''\<rparr>],
      users =
        [\<lparr>user_id = ''u1'', user_email = ''admin@hdms.rw'', user_full_name = ''Admin'',
          user_hospital_id = ''h1'', user_expertise = None, user_phone = None,
          is_verified = True, is_admin = True, is_disabled = False, last_login = None,
          user_updated_at = ''2024-01-01''\<rparr>,
         \<lparr>user_id = ''u2'', user_email = ''doctor@hdms.rw'', user_full_name = ''Doctor'',
          user_hospital_id = ''h1'', user_expertise = None, user_phone = None,
          is_verified = True, is_admin = False, is_disabled = False, last_login = None,
          user_updated_at = ''2024-01-01''\<rparr>],
      diagnoses =
        [\<lparr>diagnosis_id = ''d1'', diagnosis_hospital_id = ''h1'', diagnosis_user_id = ''u2''\<rparr>],
      support_tickets =
        [\<lparr>ticket_id = ''t1'', ticket_user_id = ''u2'', ticket_subject = ''Upload fails'',
          ticket_message = ''The scan does not upload'', ticket_status = ''open'',
          ticket_priority = ''medium'', ticket_responses = Some [],
          ticket_updated_at = ''2024-01-03''\<rparr>],
      auth_users =
        [\<lparr>auth_id = ''u1'', auth_email = ''admin@hdms.rw'', auth_password = ''root-pw'',
          auth_metadata_disabled = False\<rparr>,
         \<lparr>auth_id = ''u2'', auth_email = ''doctor@hdms.rw'', auth_password = ''doc-pw'',
          auth_metadata_disabled = False\<rparr>],
      user_login_history = [],
      failed_logins = [],
      session = None,
      failing = []\<rparr>"

text \<open>A hospital is referenced when a user or a diagnosis names it.\<close>

definition referenced :: "db \<Rightarrow> string \<Rightarrow> bool" where
  "referenced d hid =
     (list_ex (\<lambda>u. user_hospital_id u = hid) (users d) \<or>
      list_ex (\<lambda>x. diagnosis_hospital_id x = hid) (diagnoses d))"

text \<open>The body of a delete request, and of a create request with its three fields.\<close>

definition delete_body :: "string \<Rightarrow> hospital_body" where
  "delete_body hid =
     \<lparr>body_id = None, body_name = None, body_address = None, body_code = None,
      body_hospitalId = Some hid\<rparr>"

definition post_body :: "string \<Rightarrow> string \<Rightarrow> string \<Rightarrow> hospital_body" where
  "post_body name address code =
     \<lparr>body_id = None, body_name = Some name, body_address = Some address, body_code = Some code,
      body_hospitalId = None\<rparr>"

text \<open>The row that a create request asks for.\<close>

definition new_hospital_row :: "string \<Rightarrow> string \<Rightarrow> string \<Rightarrow> string \<Rightarrow> string \<Rightarrow> hospital_row" where
  "new_hospital_row new_id now name address code =
     \<lparr>hospital_id = new_id, hospital_name = name, hospital_address = address,
      hospital_code = code, hospital_created_at = now, hospital_updated_at = now\<rparr>"

text \<open>The body of a \<open>PATCH\<close> that carries an operation only.\<close>

definition operation_body :: "string \<Rightarrow> user_body" where
  "operation_body operation =
     \<lparr>body_operation = Some operation, body_fullName = None, body_user_hospitalId = None,
      body_expertise = None, body_phone = None, body_isVerified = None, body_isAdmin = None\<rparr>"

text \<open>
  The example store without its diagnosis, at a moment when the count of a hospital's
  users fails: the first hospital is still the hospital of both users.
\<close>

definition count_fails_db :: db where
  "count_fails_db = example_db\<lparr>diagnoses := [], failing := [''users.count'']\<rparr>"

text \<open>
  The body of a \<open>PATCH\<close> of a hospital; the example store after the second hospital has
  been given the code of the first through such a request; and the example store at a
  moment when the look-up of a hospital fails, or the insert.
\<close>

definition patch_body :: "string \<Rightarrow> string \<Rightarrow> string \<Rightarrow> string \<Rightarrow> hospital_body" where
  "patch_body hid name address code =
     \<lparr>body_id = Some hid, body_name = Some name, body_address = Some address,
      body_code = Some code, body_hospitalId = None\<rparr>"

definition shared_code_db :: db where
  "shared_code_db =
     snd (handleUpdateHospital ''2024-02-10''
            (patch_body ''h2'' ''District Hospital'' ''Huye'' ''HSP-00001'') example_db)"

definition lookup_fails_db :: db where
  "lookup_fails_db = example_db\<lparr>failing := [''hospitals.select'']\<rparr>"

definition insert_fails_db :: db where
  "insert_fails_db = example_db\<lparr>failing := [''hospitals.insert'']\<rparr>"

text \<open>The number of stored hospitals with a code.\<close>

definition with_code :: "db \<Rightarrow> string \<Rightarrow> nat" where
  "with_code d code = length (filter (\<lambda>h. hospital_code h = code) (hospitals d))"

text \<open>
  The doctor's sign-in form with a given password; the store after an admin has disabled
  the doctor; five attempts with a wrong password; the store after these attempts and
  after the admin has enabled the doctor again; and the example store with five recorded
  failed attempts of the doctor.
\<close>

definition doctor_form :: "string \<Rightarrow> sign_in_form" where
  "doctor_form password =
     \<lparr>form_email = ''doctor@hdms.rw'', form_password = password, form_hospitalId = None\<rparr>"

definition after_disable :: db where
  "after_disable =
     snd (handleUpdateUser ''2024-03-01'' ''tmp-pw'' ''u2'' (operation_body ''disable'') example_db)"

definition five_wrong :: "(string \<times> string \<times> sign_in_form \<times> string list) list" where
  "five_wrong = replicate 5 (''2024-03-02'', ''10.0.0.7'', doctor_form ''guess'', [])"

definition after_enable :: db where
  "after_enable =
     snd (handleUpdateUser ''2024-03-03'' ''tmp-pw'' ''u2'' (operation_body ''enable'')
            (snd (signIn_all five_wrong after_disable)))"

definition locked_db :: db where
  "locked_db = example_db\<lparr>failed_logins := [(''doctor@hdms.rw'', 5)]\<rparr>"

text \<open>
  The store after an admin has disabled and then enabled the doctor, with no attempt in
  between; and the doctor's form naming the second hospital.
\<close>

definition enabled_again :: db where
  "enabled_again =
     snd (handleUpdateUser ''2024-03-03'' ''tmp-pw'' ''u2'' (operation_body ''enable'') after_disable)"

definition doctor_form_at :: "string \<Rightarrow> string \<Rightarrow> sign_in_form" where
  "doctor_form_at hid password =
     \<lparr>form_email = ''doctor@hdms.rw'', form_password = password, form_hospitalId = Some hid\<rparr>"

text \<open>
  The doctor signs in, and an admin then disables the doctor: the store after, in which
  the doctor's client still has its session.
\<close>

definition disabled_while_signed_in :: db where
  "disabled_while_signed_in =
     snd (handleUpdateUser ''2024-03-01'' ''tmp-pw'' ''u2'' (operation_body ''disable'')
            (snd (signIn ''2024-02-28'' ''10.0.0.7'' (doctor_form ''doc-pw'') example_db)))"

text \<open>
  The prices and the diagnoses of a month at the first hospital: three CT scans at 10000
  and two MRI scans at 20000. The figures that the aggregator makes of them.
\<close>

definition example_prices :: "string \<Rightarrow> int" where
  "example_prices cat = (if cat = ''CT'' then 10000 else if cat = ''MRI'' then 20000 else 5000)"

definition example_scan :: "string \<Rightarrow> nat \<Rightarrow> string \<Rightarrow> billed_diagnosis" where
  "example_scan dx_id day scan =
     \<lparr>billed_id = dx_id, billed_created_at = day, billed_hospital_id = ''h1'',
      billed_hospital = Some (''General Hospital'', ''HSP-00001''), billed_scan_type = Some scan\<rparr>"

definition example_diagnoses :: "billed_diagnosis list" where
  "example_diagnoses =
     [example_scan ''d1'' 3 ''CT'', example_scan ''d2'' 5 ''MRI'', example_scan ''d3'' 9 ''CT'',
      example_scan ''d4'' 17 ''CT'', example_scan ''d5'' 28 ''MRI'']"

definition example_billing :: billing_data where
  "example_billing = aggregate example_prices ''Other'' example_diagnoses"

text \<open>The billing data without any diagnosis.\<close>

definition zero_billing :: billing_data where
  "zero_billing = \<lparr>overall = empty_summary, hospital_summaries = []\<rparr>"

text \<open>
  In a summary, the per-category costs add up to the total and the per-category counts to
  the number of diagnoses, each category having one key.
\<close>

definition sums_agree :: "'a summary_scheme \<Rightarrow> bool" where
  "sums_agree s =
     (sum_list (map snd (diagnosisCosts s)) = totalAmount s \<and>
      sum_list (map snd (diagnosisCounts s)) = totalDiagnoses s \<and>
      distinct (map fst (diagnosisCosts s)) \<and> distinct (map fst (diagnosisCounts s)))"





section \<open>Properties of the store's calls\<close>

lemma gt0_count_eq:
  "\<not> fails d call \<Longrightarrow> gt0 (count_eq d call rows col v) = list_ex (\<lambda>r. col r = v) rows"
  by (induction rows) (auto simp: gt0_def count_eq_def)

lemma gt0_count_eq_failed:
  "fails d call \<Longrightarrow> \<not> gt0 (count_eq d call rows col v)"
  by (simp add: gt0_def count_eq_def)

lemma single_answers:
  "\<not> fails d call \<Longrightarrow> single d call rows col v = only_row rows col v"
  by (simp add: single_def)

lemma single_failed:
  "fails d call \<Longrightarrow> single d call rows col v = None"
  by (simp add: single_def)

lemma only_row_one:
  "(\<exists>r. only_row rows col v = Some r) = (length (filter (\<lambda>r. col r = v) rows) = 1)"
  by (cases "filter (\<lambda>r. col r = v) rows") (auto simp: only_row_def split: list.splits)

lemma only_row_none:
  "length (filter (\<lambda>r. col r = v) rows) = 0 \<Longrightarrow> only_row rows col v = None"
  by (simp add: only_row_def)

lemma filter_update_where:
  assumes "\<And>r. col (f r) = col r"
  shows "filter (\<lambda>r. col r = v) (update_where col v f rows) = map f (filter (\<lambda>r. col r = v) rows)"
  by (induction rows) (simp_all add: update_where_def assms)

lemma only_row_update_where:
  assumes "\<And>r. col (f r) = col r"
  shows "only_row (update_where col v f rows) col v = map_option f (only_row rows col v)"
  by (simp add: only_row_def filter_update_where assms split: list.splits)

section \<open>Deleting a hospital\<close>

text \<open>
  While the two counts and the delete answer, the handler keeps the rule: a delete request
  for a hospital that a user or a diagnosis references is rejected with status 400 and a
  message, and the store is unchanged; a delete request for a hospital that nothing
  references answers with success, and the hospital's row is gone.
\<close>

lemma delete_hospital_while_calls_answer:
  assumes "\<not> fails d ''users.count''" and "\<not> fails d ''diagnoses.count''"
    and "\<not> fails d ''hospitals.delete''" and "hid \<noteq> []"
  shows "(referenced d hid \<longrightarrow>
            status (fst (handleDeleteHospital (Some hid) d)) = 400 \<and>
            (\<exists>msg. body (fst (handleDeleteHospital (Some hid) d)) = ErrorBody msg \<and> msg \<noteq> []) \<and>
            snd (handleDeleteHospital (Some hid) d) = d) \<and>
         (\<not> referenced d hid \<longrightarrow>
            fst (handleDeleteHospital (Some hid) d) =
              json 200 (SuccessMessage ''Hospital deleted successfully'') \<and>
            snd (handleDeleteHospital (Some hid) d) =
              d\<lparr>hospitals := filter (\<lambda>h. hospital_id h \<noteq> hid) (hospitals d)\<rparr> \<and>
            \<not> list_ex (\<lambda>h. hospital_id h = hid) (hospitals (snd (handleDeleteHospital (Some hid) d))))"
  using assms
  by (auto simp: handleDeleteHospital_def referenced_def gt0_count_eq delete_hospital_def json_def
      list_ex_iff)

text \<open>
  C5 at a concrete request. In the store \<open>count_fails_db\<close> the hospital \<open>h1\<close> is the
  hospital of the users \<open>u1\<close> and \<open>u2\<close>, and the call that counts a hospital's users
  fails. The handler reads the count only, which is \<open>null\<close>, takes the hospital for
  unreferenced, deletes its row and answers with success: both users now name a hospital
  that is gone. The handler that deletes a user reads the error of its counting call and
  answers such a failure with status 500, leaving the store as it is.
\<close>

theorem delete_hospital_after_failed_count:
  "referenced count_fails_db ''h1'' \<and>
   map user_hospital_id (users count_fails_db) = [''h1'', ''h1''] \<and>
   fst (handleDeleteHospital (Some ''h1'') count_fails_db) =
     json 200 (SuccessMessage ''Hospital deleted successfully'') \<and>
   map hospital_id (hospitals (snd (handleDeleteHospital (Some ''h1'') count_fails_db))) = [''h2''] \<and>
   map user_hospital_id (users (snd (handleDeleteHospital (Some ''h1'') count_fails_db))) =
     [''h1'', ''h1''] \<and>
   handleDeleteUser ''u1'' (example_db\<lparr>failing := [''diagnoses.count'']\<rparr>) =
     (json 500 (ErrorBody upstream_error), example_db\<lparr>failing := [''diagnoses.count'']\<rparr>)"
  by code_simp

section \<open>Creating a hospital\<close>

text \<open>
  C9, as the handler has it. A create request whose code exactly one stored hospital has
  is answered, when the look-up of the code answers, with an error of status 400 and the
  store is unchanged; the error is "Hospital code already exists" when the body also has
  a name and an address. A create request with a name, an address and a code that no
  stored hospital has is answered, when the insert answers, with the created row, which
  is appended to the table.
\<close>

theorem create_hospital_code_check:
  "(with_code d code = 1 \<and> body_code b = Some code \<and> \<not> fails d ''hospitals.select'' \<longrightarrow>
      status (fst (handleCreateHospital now new_id b d)) = 400 \<and>
      (\<exists>msg. body (fst (handleCreateHospital now new_id b d)) = ErrorBody msg) \<and>
      snd (handleCreateHospital now new_id b d) = d \<and>
      (\<not> falsy (body_name b) \<and> \<not> falsy (body_address b) \<and> code \<noteq> [] \<longrightarrow>
         fst (handleCreateHospital now new_id b d) =
           json 400 (ErrorBody ''Hospital code already exists''))) \<and>
   (with_code d code = 0 \<and> name \<noteq> [] \<and> address \<noteq> [] \<and> code \<noteq> [] \<and>
    \<not> fails d ''hospitals.insert'' \<longrightarrow>
      handleCreateHospital now new_id (post_body name address code) d =
        (json 200 (HospitalBody (Some (new_hospital_row new_id now name address code))),
         d\<lparr>hospitals := hospitals d @ [new_hospital_row new_id now name address code]\<rparr>))"
proof (intro conjI impI)
  assume a: "with_code d code = 1 \<and> body_code b = Some code \<and> \<not> fails d ''hospitals.select''"
  then obtain r where r: "only_row (hospitals d) hospital_code code = Some r"
    using only_row_one [of "hospitals d" hospital_code code] by (auto simp: with_code_def)
  have s: "single d ''hospitals.select'' (hospitals d) hospital_code code = Some r"
    using a r by (simp add: single_answers)
  show "status (fst (handleCreateHospital now new_id b d)) = 400"
    using a s by (auto simp: handleCreateHospital_def json_def falsy_def split: option.splits)
  show "\<exists>msg. body (fst (handleCreateHospital now new_id b d)) = ErrorBody msg"
    using a s by (auto simp: handleCreateHospital_def json_def falsy_def split: option.splits)
  show "snd (handleCreateHospital now new_id b d) = d"
    using a s by (auto simp: handleCreateHospital_def json_def falsy_def split: option.splits)
  assume "\<not> falsy (body_name b) \<and> \<not> falsy (body_address b) \<and> code \<noteq> []"
  then show "fst (handleCreateHospital now new_id b d) =
               json 400 (ErrorBody ''Hospital code already exists'')"
    using a s by (auto simp: handleCreateHospital_def json_def falsy_def split: option.splits)
next
  assume a: "with_code d code = 0 \<and> name \<noteq> [] \<and> address \<noteq> [] \<and> code \<noteq> [] \<and>
             \<not> fails d ''hospitals.insert''"
  then have "only_row (hospitals d) hospital_code code = None"
    using only_row_none [of hospital_code code "hospitals d"] by (simp add: with_code_def)
  then have s: "single d ''hospitals.select'' (hospitals d) hospital_code code = None"
    by (simp add: single_def)
  show "handleCreateHospital now new_id (post_body name address code) d =
          (json 200 (HospitalBody (Some (new_hospital_row new_id now name address code))),
           d\<lparr>hospitals := hospitals d @ [new_hospital_row new_id now name address code]\<rparr>)"
    using a s
    by (simp add: handleCreateHospital_def post_body_def falsy_def insert_hospital_def
        new_hospital_row_def)
qed

theorem create_hospital_code_check_witness:
  "with_code example_db ''HSP-00001'' = 1 \<and> with_code example_db ''HSP-00003'' = 0 \<and>
   handleCreateHospital ''2024-02-01'' ''h3'' (post_body ''Clinic'' ''Musanze'' ''HSP-00001'') example_db =
     (json 400 (ErrorBody ''Hospital code already exists''), example_db) \<and>
   handleCreateHospital ''2024-02-01'' ''h3'' (post_body ''Clinic'' ''Musanze'' ''HSP-00003'') example_db =
     (json 200 (HospitalBody (Some (new_hospital_row ''h3'' ''2024-02-01'' ''Clinic'' ''Musanze'' ''HSP-00003''))),
      example_db\<lparr>hospitals := hospitals example_db @
        [new_hospital_row ''h3'' ''2024-02-01'' ''Clinic'' ''Musanze'' ''HSP-00003'']\<rparr>)"
proof -
  have one: "with_code example_db ''HSP-00001'' = 1" by code_simp
  have none: "with_code example_db ''HSP-00003'' = 0" by code_simp
  have up: "\<not> fails example_db ''hospitals.select'' \<and> \<not> fails example_db ''hospitals.insert''"
    by code_simp
  have b: "body_code (post_body ''Clinic'' ''Musanze'' ''HSP-00001'') = Some ''HSP-00001'' \<and>
           \<not> falsy (body_name (post_body ''Clinic'' ''Musanze'' ''HSP-00001'')) \<and>
           \<not> falsy (body_address (post_body ''Clinic'' ''Musanze'' ''HSP-00001''))"
    by code_simp
  have ne: "''Clinic'' \<noteq> [] \<and> ''Musanze'' \<noteq> [] \<and> ''HSP-00001'' \<noteq> [] \<and> ''HSP-00003'' \<noteq> []"
    by simp
  show ?thesis
    using one none up b ne
      create_hospital_code_check [of example_db "''HSP-00001''"
        "post_body ''Clinic'' ''Musanze'' ''HSP-00001''" "''2024-02-01''" "''h3''"]
      create_hospital_code_check [of example_db "''HSP-00003''" _ "''2024-02-01''" "''h3''"
        "''Clinic''" "''Musanze''"]
    by (metis prod.collapse)
qed

text \<open>
  Where the claim fails. A create request with the code of the first stored hospital is
  answered with status 400, not 409, and with the error of the validation when it has no
  name. In the store \<open>shared_code_db\<close> two hospitals have the
  code \<open>HSP-00001\<close>, as an update request has left them; the look-up for one row then
  gives none, and a create request with this code is answered with a third such row. When
  the look-up fails its error is not read, and the request is again answered with a new
  row of the same code. When the insert fails, a request with a new code is answered with
  status 500.
\<close>

theorem create_hospital_code_check_counterexample:
  "status (fst (handleCreateHospital ''2024-02-01'' ''h3''
      (post_body ''Clinic'' ''Musanze'' ''HSP-00001'') example_db)) = 400 \<and>
   status (fst (handleCreateHospital ''2024-02-01'' ''h3''
      (post_body ''Clinic'' ''Musanze'' ''HSP-00001'') example_db)) \<noteq> 409 \<and>
   fst (handleCreateHospital ''2024-02-01'' ''h3''
      ((post_body ''Clinic'' ''Musanze'' ''HSP-00001'')\<lparr>body_name := None\<rparr>) example_db) =
     json 400 (ErrorBody ''Name, address, and code are required'') \<and>
   with_code shared_code_db ''HSP-00001'' = 2 \<and>
   status (fst (handleCreateHospital ''2024-02-11'' ''h3''
      (post_body ''Clinic'' ''Musanze'' ''HSP-00001'') shared_code_db)) = 200 \<and>
   with_code (snd (handleCreateHospital ''2024-02-11'' ''h3''
      (post_body ''Clinic'' ''Musanze'' ''HSP-00001'') shared_code_db)) ''HSP-00001'' = 3 \<and>
   with_code lookup_fails_db ''HSP-00001'' = 1 \<and>
   status (fst (handleCreateHospital ''2024-02-01'' ''h3''
      (post_body ''Clinic'' ''Musanze'' ''HSP-00001'') lookup_fails_db)) = 200 \<and>
   with_code (snd (handleCreateHospital ''2024-02-01'' ''h3''
      (post_body ''Clinic'' ''Musanze'' ''HSP-00001'') lookup_fails_db)) ''HSP-00001'' = 2 \<and>
   with_code insert_fails_db ''HSP-00003'' = 0 \<and>
   status (fst (handleCreateHospital ''2024-02-01'' ''h3''
      (post_body ''Clinic'' ''Musanze'' ''HSP-00003'') insert_fails_db)) = 500"
  by code_simp

section \<open>Admin routes and callers who are not admins\<close>

text \<open>
  C6 at a concrete request. The doctor \<open>u2\<close> of the example store is signed in and is
  not an admin. The middleware redirects the doctor's request for the page
  \<open>/admin/hospitals\<close>, and lets the doctor's request for \<open>/api/admin/users/u1\<close> through,
  since this path does not start with \<open>/admin\<close>. The route's handler then disables the
  admin \<open>u1\<close> and answers with success; in the same way the hospitals route deletes the
  hospital \<open>h2\<close> for the doctor.
\<close>

theorem admin_api_serves_non_admin:
  "middleware example_db (Some ''u2'') ''/admin/hospitals'' = Redirect ''/unathorized'' None \<and>
   middleware example_db (Some ''u2'') ''/api/admin/users/u1'' = Next \<and>
   fst (serve_user_route ''2024-03-01'' ''tmp-pw'' (Some ''u2'') ''/api/admin/users/u1'' ''PATCH''
         (Some (operation_body ''disable'')) example_db) =
     Answered (json 200 (SuccessMessage ''User disabled successfully'')) \<and>
   map (\<lambda>u. (user_id u, is_disabled u))
     (users (snd (serve_user_route ''2024-03-01'' ''tmp-pw'' (Some ''u2'') ''/api/admin/users/u1''
         ''PATCH'' (Some (operation_body ''disable'')) example_db))) =
     [(''u1'', True), (''u2'', False)] \<and>
   fst (serve_hospitals_route ''2024-03-01'' ''h9'' (Some ''u2'') ''DELETE''
         (Some (delete_body ''h2'')) example_db) =
     Answered (json 200 (SuccessMessage ''Hospital deleted successfully'')) \<and>
   map hospital_id
     (hospitals (snd (serve_hospitals_route ''2024-03-01'' ''h9'' (Some ''u2'') ''DELETE''
         (Some (delete_body ''h2'')) example_db))) = [''h1'']"
  by code_simp

text \<open>The pages themselves hold the check that the API routes lack.\<close>

lemma admin_page_guard:
  "(admin_page d sess = Rendered) =
     (\<exists>uid u. sess = Some uid \<and>
        single d ''page.users.select'' (users d) user_id uid = Some u \<and> is_admin u)"
  by (auto simp: admin_page_def split: option.splits)

lemma middleware_admin_guard:
  assumes "startsWith pathname ''/admin''" and "middleware d (Some uid) pathname = Next"
  shows "\<exists>u. single d ''middleware.users.select'' (users d) user_id uid = Some u \<and> is_admin u"
  using assms by (auto simp: middleware_def Let_def split: option.splits if_splits)

section \<open>Responses to a support ticket\<close>

text \<open>
  C7 at a concrete call. The ticket \<open>t1\<close> of the example store is open and has no
  response. An admin response is appended, and the ticket that the call returns is still
  open: the fetched object holds the column \<open>responses\<close> only, so the test of its status
  never succeeds.
\<close>

theorem admin_response_leaves_ticket_open:
  "map_sum id (\<lambda>t. (ticket_status t, map_option (map response_content) (ticket_responses t)))
     (fst (addSupportTicketResponse ''r1'' ''2024-03-01'' ''t1'' ''We are looking into it'' True
            example_db)) =
   Inr (''open'', Some [''We are looking into it''])"
  by code_simp

text \<open>No call changes the status of any ticket, whoever responds.\<close>

lemma add_response_keeps_status:
  "map ticket_status
     (support_tickets (snd (addSupportTicketResponse new_id now ticketId response isAdmin d))) =
   map ticket_status (support_tickets d)"
  by (auto simp: addSupportTicketResponse_def select_responses_def update_where_def Let_def
      split: option.splits)

text \<open>The response is appended to the entries that the ticket has; these stay as they are.\<close>

lemma add_response_appends:
  assumes "only_row (support_tickets d) ticket_id ticketId = Some t"
    and "\<not> fails d ''support_tickets.select''" and "\<not> fails d ''support_tickets.update''"
  shows "\<exists>t'. fst (addSupportTicketResponse new_id now ticketId response isAdmin d) = Inr t' \<and>
           ticket_responses t' =
             Some ((case ticket_responses t of None \<Rightarrow> [] | Some rs \<Rightarrow> rs) @
                   [\<lparr>response_id = new_id, response_content = response,
                     is_admin_response = isAdmin, response_created_at = now\<rparr>])"
proof -
  show ?thesis
    using assms
    by (simp add: addSupportTicketResponse_def select_responses_def Let_def single_def fails_def
        only_row_update_where)
qed

section \<open>The lock after failed attempts\<close>

text \<open>
  C10. When the counter answers, without an error, that the email has five or more failed
  attempts, \<open>signIn\<close> returns the error "Too many failed login attempts" whatever the
  password is, and leaves everything as it was: no session is established, and no call to
  the authentication provider has had an effect.
\<close>

theorem signIn_locked_out:
  assumes "getRecentFailedLoginAttempts (form_email formData) d = (count, None)" and "5 \<le> count"
  shows "signIn now ip formData d =
           (SignInError
              ''Too many failed login attempts. Please try again later or reset your password.'', d)"
  using assms by (simp add: signIn_def)

theorem signIn_locked_out_witness:
  "valid_credentials locked_db ''u2'' (doctor_form ''doc-pw'') \<and>
   signIn ''2024-03-04'' ''10.0.0.7'' (doctor_form ''doc-pw'') locked_db =
     (SignInError
        ''Too many failed login attempts. Please try again later or reset your password.'', locked_db)"
proof -
  have h: "getRecentFailedLoginAttempts (form_email (doctor_form ''doc-pw'')) locked_db = (5, None)"
    by (simp add: getRecentFailedLoginAttempts_def recorded_failures_def fails_def doctor_form_def
        locked_db_def example_db_def)
  have v: "valid_credentials locked_db ''u2'' (doctor_form ''doc-pw'')"
    by (simp add: valid_credentials_def doctor_form_def locked_db_def example_db_def)
  show ?thesis
    using v signIn_locked_out [OF h, of "''2024-03-04''" "''10.0.0.7''"] by simp
qed

section \<open>Disabled and enabled users\<close>

text \<open>One attempt with the email of a disabled user, whichever calls fail.\<close>

lemma signIn_disabled:
  assumes "only_row (users d) user_id uid = Some u" and "is_disabled u"
    and "account_of d (form_email formData) = Some uid"
  shows "is_error (fst (signIn now ip formData d)) \<and>
         users (snd (signIn now ip formData d)) = users d \<and>
         auth_users (snd (signIn now ip formData d)) = auth_users d \<and>
         (session d = None \<and> \<not> fails d ''users.select'' \<and> \<not> fails d ''auth.signOut'' \<longrightarrow>
            session (snd (signIn now ip formData d)) = None)"
  using assms
  by (auto simp: signIn_def Let_def is_error_def account_of_def signInWithPassword_def
      getRecentFailedLoginAttempts_def recordFailedLoginAttempt_def clearFailedLoginAttempts_def
      auth_signOut_def single_def fails_def
      split: option.splits prod.splits sum.splits if_splits)

lemma signIn_all_disabled:
  assumes "only_row (users d) user_id uid = Some u" and "is_disabled u"
    and "list_all (\<lambda>a. account_of d (attempt_email a) = Some uid) attempts"
  shows "list_all is_error (fst (signIn_all attempts d)) \<and>
         (session d = None \<and>
          list_all (\<lambda>a. ''users.select'' \<notin> set (attempt_calls a) \<and>
                        ''auth.signOut'' \<notin> set (attempt_calls a)) attempts \<longrightarrow>
            session (snd (signIn_all attempts d)) = None)"
  using assms
proof (induction attempts arbitrary: d)
  case Nil
  then show ?case by simp
next
  case (Cons a attempts)
  obtain now ip formData calls where a: "a = (now, ip, formData, calls)" by (cases a) auto
  let ?d = "d\<lparr>failing := calls\<rparr>"
  obtain r d1 where s: "signIn now ip formData ?d = (r, d1)"
    by (cases "signIn now ip formData ?d") auto
  have row: "only_row (users ?d) user_id uid = Some u" using Cons.prems(1) by simp
  have acc: "account_of ?d (form_email formData) = Some uid"
    using Cons.prems(3) a by (simp add: attempt_email_def account_of_def)
  have step: "is_error r \<and> users d1 = users d \<and> auth_users d1 = auth_users d \<and>
              (session d = None \<and> ''users.select'' \<notin> set calls \<and> ''auth.signOut'' \<notin> set calls \<longrightarrow>
                 session d1 = None)"
    using signIn_disabled [OF row Cons.prems(2) acc, of now ip] s by (simp add: fails_def)
  have row1: "only_row (users d1) user_id uid = Some u"
    using step Cons.prems(1) by simp
  have rest: "list_all (\<lambda>a. account_of d1 (attempt_email a) = Some uid) attempts"
    using Cons.prems(3) step by (simp add: account_of_def)
  have ih: "list_all is_error (fst (signIn_all attempts d1)) \<and>
        (session d1 = None \<and>
         list_all (\<lambda>a. ''users.select'' \<notin> set (attempt_calls a) \<and>
                       ''auth.signOut'' \<notin> set (attempt_calls a)) attempts \<longrightarrow>
           session (snd (signIn_all attempts d1)) = None)"
    using Cons.IH [OF row1 Cons.prems(2) rest] .
  show ?case
    using a s step ih by (cases "signIn_all attempts d1") (simp_all add: attempt_calls_def)
qed

text \<open>
  The operation answers with status 200 only after the user's row has been found and
  written.
\<close>

lemma disable_success:
  assumes "handleUpdateUser now pw uid (operation_body ''disable'') d = (r, d')" and "status r = 200"
  shows "session d' = session d \<and> (\<exists>u. only_row (users d') user_id uid = Some u \<and> is_disabled u)"
proof -
  obtain u where u: "single d ''users.select'' (users d) user_id uid = Some u"
    using assms by (auto simp: handleUpdateUser_def json_def split: option.splits)
  then have row: "only_row (users d) user_id uid = Some u"
    by (auto simp: single_def split: if_splits)
  let ?f = "\<lambda>u. u\<lparr>is_disabled := True, user_updated_at := now\<rparr>"
  have d': "users d' = update_where user_id uid ?f (users d) \<and> session d' = session d"
    using assms u
    by (auto simp: handleUpdateUser_def operation_body_def update_user_def updateUserById_def
        json_def split: if_splits)
  have "only_row (users d') user_id uid = map_option ?f (only_row (users d) user_id uid)"
    using d' only_row_update_where [of user_id ?f uid "users d"] by simp
  then show ?thesis using row d' by simp
qed

lemma enable_success:
  assumes "handleUpdateUser now pw uid (operation_body ''enable'') d = (r, d')" and "status r = 200"
  shows "\<exists>u. only_row (users d') user_id uid = Some u \<and> \<not> is_disabled u"
proof -
  obtain u where u: "single d ''users.select'' (users d) user_id uid = Some u"
    using assms by (auto simp: handleUpdateUser_def json_def split: option.splits)
  then have row: "only_row (users d) user_id uid = Some u"
    by (auto simp: single_def split: if_splits)
  let ?f = "\<lambda>u. u\<lparr>is_disabled := False, user_updated_at := now\<rparr>"
  have d': "users d' = update_where user_id uid ?f (users d)"
    using assms u
    by (auto simp: handleUpdateUser_def operation_body_def update_user_def updateUserById_def
        json_def split: if_splits)
  have "only_row (users d') user_id uid = map_option ?f (only_row (users d) user_id uid)"
    using d' only_row_update_where [of user_id ?f uid "users d"] by simp
  then show ?thesis using row by simp
qed

text \<open>One attempt with the credentials of a user who is not disabled.\<close>

lemma signIn_enabled:
  assumes "only_row (users d) user_id uid = Some u" and "\<not> is_disabled u"
    and "valid_credentials d uid formData"
    and "recorded_failures d (form_email formData) < 5"
    and "hospital_ok d uid (form_hospitalId formData)"
    and "\<not> fails d ''getRecentFailedLoginAttempts''" and "\<not> fails d ''auth.signInWithPassword''"
    and "\<not> fails d ''users.select''"
  shows "fst (signIn now ip formData d) = SignInSuccess \<and>
         session (snd (signIn now ip formData d)) = Some uid"
  using assms
  by (auto simp: signIn_def Let_def valid_credentials_def hospital_ok_def signInWithPassword_def
      getRecentFailedLoginAttempts_def clearFailedLoginAttempts_def insert_login_history_def
      updateLastLogin_def single_def fails_def
      split: option.splits prod.splits sum.splits if_splits)

text \<open>
  C8, as \<open>signIn\<close> has it. After a successful disable operation for a user, every
  sign-in attempt with this user's email fails with an error, however many attempts
  follow and whichever calls fail; and a client that had no session has none afterwards,
  when in each attempt the look-up of the user's row and the sign-out answer. After a
  successful enable operation, a sign-in with the user's email and password succeeds and
  establishes the user's session, when the email has fewer than five failed attempts on
  record, the form names no hospital or the user's hospital, and the counter, the
  authentication provider and the look-up of the user's row answer.
\<close>

theorem disable_blocks_enable_restores:
  "(handleUpdateUser now pw uid (operation_body ''disable'') d = (r, d') \<and> status r = 200 \<and>
    list_all (\<lambda>a. account_of d' (attempt_email a) = Some uid) attempts \<longrightarrow>
      list_all is_error (fst (signIn_all attempts d')) \<and>
      (session d' = None \<and>
       list_all (\<lambda>a. ''users.select'' \<notin> set (attempt_calls a) \<and>
                     ''auth.signOut'' \<notin> set (attempt_calls a)) attempts \<longrightarrow>
         session (snd (signIn_all attempts d')) = None)) \<and>
   (handleUpdateUser now pw uid (operation_body ''enable'') d = (r, d') \<and> status r = 200 \<and>
    valid_credentials d' uid formData \<and>
    recorded_failures d' (form_email formData) < 5 \<and>
    hospital_ok d' uid (form_hospitalId formData) \<and>
    ''getRecentFailedLoginAttempts'' \<notin> set calls \<and> ''auth.signInWithPassword'' \<notin> set calls \<and>
    ''users.select'' \<notin> set calls \<longrightarrow>
      fst (signIn now' ip formData (d'\<lparr>failing := calls\<rparr>)) = SignInSuccess \<and>
      session (snd (signIn now' ip formData (d'\<lparr>failing := calls\<rparr>))) = Some uid)"
proof (intro conjI impI)
  assume a: "handleUpdateUser now pw uid (operation_body ''disable'') d = (r, d') \<and> status r = 200 \<and>
    list_all (\<lambda>a. account_of d' (attempt_email a) = Some uid) attempts"
  then obtain u where u: "only_row (users d') user_id uid = Some u" and dis: "is_disabled u"
    using disable_success [of now pw uid d r d'] by auto
  have acc: "list_all (\<lambda>a. account_of d' (attempt_email a) = Some uid) attempts" using a by simp
  have both: "list_all is_error (fst (signIn_all attempts d')) \<and>
      (session d' = None \<and>
       list_all (\<lambda>a. ''users.select'' \<notin> set (attempt_calls a) \<and>
                     ''auth.signOut'' \<notin> set (attempt_calls a)) attempts \<longrightarrow>
         session (snd (signIn_all attempts d')) = None)"
    using signIn_all_disabled [OF u dis acc] .
  from both show "list_all is_error (fst (signIn_all attempts d'))" by simp
  assume "session d' = None \<and>
       list_all (\<lambda>a. ''users.select'' \<notin> set (attempt_calls a) \<and>
                     ''auth.signOut'' \<notin> set (attempt_calls a)) attempts"
  with both show "session (snd (signIn_all attempts d')) = None" by simp
next
  assume a: "handleUpdateUser now pw uid (operation_body ''enable'') d = (r, d') \<and> status r = 200 \<and>
    valid_credentials d' uid formData \<and>
    recorded_failures d' (form_email formData) < 5 \<and>
    hospital_ok d' uid (form_hospitalId formData) \<and>
    ''getRecentFailedLoginAttempts'' \<notin> set calls \<and> ''auth.signInWithPassword'' \<notin> set calls \<and>
    ''users.select'' \<notin> set calls"
  let ?d = "d'\<lparr>failing := calls\<rparr>"
  obtain u where u: "only_row (users d') user_id uid = Some u" and en: "\<not> is_disabled u"
    using a enable_success [of now pw uid d r d'] by auto
  have 1: "only_row (users ?d) user_id uid = Some u" using u by simp
  have 2: "valid_credentials ?d uid formData" using a by (simp add: valid_credentials_def)
  have 3: "recorded_failures ?d (form_email formData) < 5" using a by (simp add: recorded_failures_def)
  have 4: "hospital_ok ?d uid (form_hospitalId formData)" using a by (simp add: hospital_ok_def)
  have 5: "\<not> fails ?d ''getRecentFailedLoginAttempts''" using a by (simp add: fails_def)
  have 6: "\<not> fails ?d ''auth.signInWithPassword''" using a by (simp add: fails_def)
  have 7: "\<not> fails ?d ''users.select''" using a by (simp add: fails_def)
  have both: "fst (signIn now' ip formData ?d) = SignInSuccess \<and>
      session (snd (signIn now' ip formData ?d)) = Some uid"
    using signIn_enabled [OF 1 en 2 3 4 5 6 7] .
  from both show "fst (signIn now' ip formData ?d) = SignInSuccess" by simp
  from both show "session (snd (signIn now' ip formData ?d)) = Some uid" by simp
qed

theorem disable_blocks_enable_restores_witness:
  "list_all is_error
     (fst (signIn_all [(''2024-03-02'', ''10.0.0.7'', doctor_form ''doc-pw'', [''updateLastLogin'']),
                       (''2024-03-02'', ''10.0.0.7'', doctor_form ''guess'', [])] after_disable)) \<and>
   session (snd (signIn_all [(''2024-03-02'', ''10.0.0.7'', doctor_form ''doc-pw'', [''updateLastLogin'']),
                       (''2024-03-02'', ''10.0.0.7'', doctor_form ''guess'', [])] after_disable)) = None \<and>
   fst (signIn ''2024-03-04'' ''10.0.0.7'' (doctor_form ''doc-pw'')
          (enabled_again\<lparr>failing := [''updateLastLogin'']\<rparr>)) = SignInSuccess \<and>
   session (snd (signIn ''2024-03-04'' ''10.0.0.7'' (doctor_form ''doc-pw'')
          (enabled_again\<lparr>failing := [''updateLastLogin'']\<rparr>))) = Some ''u2''"
proof -
  have h1: "handleUpdateUser ''2024-03-01'' ''tmp-pw'' ''u2'' (operation_body ''disable'') example_db =
              (json 200 (SuccessMessage ''User disabled successfully''), after_disable) \<and>
            status (json 200 (SuccessMessage ''User disabled successfully'')) = 200 \<and>
            list_all (\<lambda>a. account_of after_disable (attempt_email a) = Some ''u2'')
              [(''2024-03-02'', ''10.0.0.7'', doctor_form ''doc-pw'', [''updateLastLogin'']),
               (''2024-03-02'', ''10.0.0.7'', doctor_form ''guess'', [])] \<and>
            session after_disable = None \<and>
            list_all (\<lambda>a. ''users.select'' \<notin> set (attempt_calls a) \<and>
                          ''auth.signOut'' \<notin> set (attempt_calls a))
              [(''2024-03-02'', ''10.0.0.7'', doctor_form ''doc-pw'', [''updateLastLogin'']),
               (''2024-03-02'', ''10.0.0.7'', doctor_form ''guess'', [])]"
    by code_simp
  have h2: "handleUpdateUser ''2024-03-03'' ''tmp-pw'' ''u2'' (operation_body ''enable'') after_disable =
              (json 200 (SuccessMessage ''User enabled successfully''), enabled_again) \<and>
            status (json 200 (SuccessMessage ''User enabled successfully'')) = 200 \<and>
            valid_credentials enabled_again ''u2'' (doctor_form ''doc-pw'') \<and>
            recorded_failures enabled_again (form_email (doctor_form ''doc-pw'')) < 5 \<and>
            hospital_ok enabled_again ''u2'' (form_hospitalId (doctor_form ''doc-pw'')) \<and>
            ''getRecentFailedLoginAttempts'' \<notin> set [''updateLastLogin''] \<and>
            ''auth.signInWithPassword'' \<notin> set [''updateLastLogin''] \<and>
            ''users.select'' \<notin> set [''updateLastLogin'']"
    by code_simp
  show ?thesis
    using h1 h2
      disable_blocks_enable_restores [of "''2024-03-01''" "''tmp-pw''" "''u2''" example_db
        "json 200 (SuccessMessage ''User disabled successfully'')" after_disable
        "[(''2024-03-02'', ''10.0.0.7'', doctor_form ''doc-pw'', [''updateLastLogin'']),
          (''2024-03-02'', ''10.0.0.7'', doctor_form ''guess'', [])]"]
      disable_blocks_enable_restores [of "''2024-03-03''" "''tmp-pw''" "''u2''" after_disable
        "json 200 (SuccessMessage ''User enabled successfully'')" enabled_again
        _ "doctor_form ''doc-pw''" "[''updateLastLogin'']" "''2024-03-04''" "''10.0.0.7''"]
    by blast
qed

text \<open>
  Where the claim fails. (1) An admin disables the doctor, five attempts with a wrong
  password follow, the admin enables the doctor again, and the doctor's sign-in with the
  right password is refused. (2) After a disable and an enable, the doctor's sign-in with
  the right password and the second hospital in the form is refused. (3) The doctor was
  signed in before being disabled: an attempt with a wrong password fails, and the session
  is still there. (4) The doctor is disabled and the look-up of the user's row fails after
  the password has been accepted: the attempt is answered with an error, and the session
  that the provider has established is left. (5) The same when the sign-out fails.
  (6) After a disable and an enable, the doctor's sign-in with the right password fails
  when the counter, the authentication provider or the look-up of the user's row fails.
\<close>

theorem disable_blocks_enable_restores_counterexample:
  "fst (handleUpdateUser ''2024-03-03'' ''tmp-pw'' ''u2'' (operation_body ''enable'')
          (snd (signIn_all five_wrong after_disable))) =
     json 200 (SuccessMessage ''User enabled successfully'') \<and>
   valid_credentials after_enable ''u2'' (doctor_form ''doc-pw'') \<and>
   fst (signIn ''2024-03-04'' ''10.0.0.7'' (doctor_form ''doc-pw'') after_enable) =
     SignInError ''Too many failed login attempts. Please try again later or reset your password.'' \<and>
   valid_credentials enabled_again ''u2'' (doctor_form_at ''h2'' ''doc-pw'') \<and>
   fst (signIn ''2024-03-04'' ''10.0.0.7'' (doctor_form_at ''h2'' ''doc-pw'') enabled_again) =
     SignInError ''You do not have access to this hospital'' \<and>
   fst (handleUpdateUser ''2024-03-01'' ''tmp-pw'' ''u2'' (operation_body ''disable'')
          (snd (signIn ''2024-02-28'' ''10.0.0.7'' (doctor_form ''doc-pw'') example_db))) =
     json 200 (SuccessMessage ''User disabled successfully'') \<and>
   fst (signIn ''2024-03-02'' ''10.0.0.7'' (doctor_form ''guess'') disabled_while_signed_in) =
     SignInError ''Invalid login credentials'' \<and>
   session (snd (signIn ''2024-03-02'' ''10.0.0.7'' (doctor_form ''guess'') disabled_while_signed_in)) =
     Some ''u2'' \<and>
   session after_disable = None \<and>
   fst (signIn ''2024-03-02'' ''10.0.0.7'' (doctor_form ''doc-pw'')
          (after_disable\<lparr>failing := [''users.select'']\<rparr>)) = SignInError ''User profile not found'' \<and>
   session (snd (signIn ''2024-03-02'' ''10.0.0.7'' (doctor_form ''doc-pw'')
          (after_disable\<lparr>failing := [''users.select'']\<rparr>))) = Some ''u2'' \<and>
   fst (signIn ''2024-03-02'' ''10.0.0.7'' (doctor_form ''doc-pw'')
          (after_disable\<lparr>failing := [''auth.signOut'']\<rparr>)) =
     SignInError ''Your account has been disabled. Please contact your administrator.'' \<and>
   session (snd (signIn ''2024-03-02'' ''10.0.0.7'' (doctor_form ''doc-pw'')
          (after_disable\<lparr>failing := [''auth.signOut'']\<rparr>))) = Some ''u2'' \<and>
   fst (signIn ''2024-03-04'' ''10.0.0.7'' (doctor_form ''doc-pw'')
          (enabled_again\<lparr>failing := [''getRecentFailedLoginAttempts'']\<rparr>)) =
     SignInError ''Security check failed'' \<and>
   fst (signIn ''2024-03-04'' ''10.0.0.7'' (doctor_form ''doc-pw'')
          (enabled_again\<lparr>failing := [''auth.signInWithPassword'']\<rparr>)) =
     SignInError upstream_error \<and>
   fst (signIn ''2024-03-04'' ''10.0.0.7'' (doctor_form ''doc-pw'')
          (enabled_again\<lparr>failing := [''users.select'']\<rparr>)) = SignInError ''User profile not found''"
  by code_simp

section \<open>The status of an invoice\<close>























section \<open>Billing figures of an empty range\<close>

lemma percentage_not_NaN: "percentage a t \<noteq> NaN"
  by (simp add: percentage_def js_div_def js_times_def)

lemma percentage_zero_total: "percentage a 0 = Num 0"
  by (simp add: percentage_def)

text \<open>
  C1. When no diagnosis matches the date range (and the hospital), the aggregator answers
  with the data, not with an error: a total of 0, 0 diagnoses, no counts, no costs and no
  hospital summaries; the dashboard shows the same zeros when it has no data at all. A
  row's percentage over a table total of 0 is 0 (and is shown as "0%"), and no
  percentage is ever \<open>NaN\<close>.
\<close>

theorem empty_range_zero_summary:
  "(matching hospital startDate endDate dxs = [] \<longrightarrow>
      getBillingData unit_cost dc hospital startDate endDate (Some dxs) = Inr zero_billing \<and>
      overallStats (Some zero_billing) = empty_summary \<and>
      table_totalAmount (hospital_summaries zero_billing) = 0) \<and>
   totalAmount empty_summary = 0 \<and> totalDiagnoses empty_summary = 0 \<and>
   diagnosisCounts empty_summary = [] \<and> diagnosisCosts empty_summary = [] \<and>
   overallStats None = empty_summary \<and>
   (table_totalAmount hs = 0 \<longrightarrow> table_percentages hs = replicate (length hs) (Num 0)) \<and>
   percentage a 0 = Num 0 \<and> percentage a t \<noteq> NaN \<and>
   percentage_label toFixed1 a 0 = ''0%''"
  by (simp add: getBillingData_def percentage_label_def aggregate_def zero_billing_def overallStats_def empty_summary_def
      table_totalAmount_def table_percentages_def percentage_zero_total percentage_not_NaN
      map_replicate_const)

theorem empty_range_zero_summary_witness:
  "matching (Some ''h2'') 1 31 example_diagnoses = [] \<and>
   getBillingData example_prices ''Other'' (Some ''h2'') 1 31 (Some example_diagnoses) = Inr zero_billing \<and>
   table_totalAmount [new_hospital_summary (example_scan ''d1'' 3 ''CT'')] = 0 \<and>
   table_percentages [new_hospital_summary (example_scan ''d1'' 3 ''CT'')] = [Num 0]"
proof -
  have m: "matching (Some ''h2'') 1 31 example_diagnoses = []"
    by code_simp
  have t: "table_totalAmount [new_hospital_summary (example_scan ''d1'' 3 ''CT'')] = 0"
    by code_simp
  show ?thesis
    using m t
      empty_range_zero_summary [of "Some ''h2''" 1 31 example_diagnoses example_prices "''Other''"
        "[new_hospital_summary (example_scan ''d1'' 3 ''CT'')]"]
    by simp
qed

section \<open>Totals and per-category figures\<close>

lemma sum_add_to:
  fixes v :: "'a::comm_monoid_add"
  shows "sum_list (map snd (add_to key v obj)) = sum_list (map snd obj) + v"
  by (induction obj) (auto simp: add.assoc add.commute add.left_commute)

lemma keys_add_to:
  "map fst (add_to key v obj) =
     (if key \<in> fst ` set obj then map fst obj else map fst obj @ [key])"
proof (induction obj)
  case Nil
  show ?case by simp
next
  case (Cons p obj)
  obtain k x where p: "p = (k, x)" by (cases p)
  show ?case
  proof (cases "k = key")
    case True
    then show ?thesis using p by simp
  next
    case False
    then show ?thesis using p Cons.IH by simp
  qed
qed

lemma distinct_add_to: "distinct (map fst obj) \<Longrightarrow> distinct (map fst (add_to key v obj))"
  by (simp add: keys_add_to)

lemma account_sums_agree: "sums_agree s \<Longrightarrow> sums_agree (account cat amount s)"
  by (simp add: sums_agree_def account_def sum_add_to distinct_add_to)

lemma aggregate_step_overall:
  "overall (foldl (\<lambda>acc dx.
              (let cat = category dc dx; amount = unit_cost cat
               in \<lparr>overall = account cat amount (overall acc),
                   hospital_summaries = account_hospital cat amount dx (hospital_summaries acc)\<rparr>))
            acc dxs) =
   foldl (\<lambda>s dx. account (category dc dx) (unit_cost (category dc dx)) s) (overall acc) dxs"
  by (induction dxs arbitrary: acc) (simp_all add: Let_def)

lemma foldl_account_sums_agree:
  "sums_agree s \<Longrightarrow>
   sums_agree (foldl (\<lambda>s dx. account (category dc dx) (unit_cost (category dc dx)) s) s dxs)"
  by (induction dxs arbitrary: s) (simp_all add: account_sums_agree)

lemma aggregate_sums_agree: "sums_agree (overall (aggregate unit_cost dc dxs))"
  unfolding aggregate_def aggregate_step_overall
  by (rule foldl_account_sums_agree) (simp add: sums_agree_def empty_summary_def)

text \<open>
  C2. In the overall summary that the aggregator returns, the costs of the categories add
  up to the total amount and the counts of the categories add up to the number of
  diagnoses; each category has one key in either object.
\<close>

theorem per_type_sums_equal_totals:
  "getBillingData unit_cost dc hospital startDate endDate (Some dxs) = Inr billingData \<longrightarrow>
     sum_list (map snd (diagnosisCosts (overall billingData))) = totalAmount (overall billingData) \<and>
     sum_list (map snd (diagnosisCounts (overall billingData))) = totalDiagnoses (overall billingData) \<and>
     distinct (map fst (diagnosisCosts (overall billingData))) \<and>
     distinct (map fst (diagnosisCounts (overall billingData)))"
  using aggregate_sums_agree [of unit_cost dc "matching hospital startDate endDate dxs"]
  by (auto simp: getBillingData_def sums_agree_def)

theorem per_type_sums_equal_totals_witness:
  "getBillingData example_prices ''Other'' None 1 31 (Some example_diagnoses) = Inr example_billing \<and>
   totalAmount (overall example_billing) = 70000 \<and>
   totalDiagnoses (overall example_billing) = 5 \<and>
   diagnosisCounts (overall example_billing) = [(''CT'', 3), (''MRI'', 2)] \<and>
   diagnosisCosts (overall example_billing) = [(''CT'', 30000), (''MRI'', 40000)] \<and>
   sum_list (map snd (diagnosisCosts (overall example_billing))) = totalAmount (overall example_billing) \<and>
   sum_list (map snd (diagnosisCounts (overall example_billing))) = totalDiagnoses (overall example_billing)"
proof -
  have h: "getBillingData example_prices ''Other'' None 1 31 (Some example_diagnoses) = Inr example_billing"
    by code_simp
  have v: "totalAmount (overall example_billing) = 70000 \<and>
           totalDiagnoses (overall example_billing) = 5 \<and>
           diagnosisCounts (overall example_billing) = [(''CT'', 3), (''MRI'', 2)] \<and>
           diagnosisCosts (overall example_billing) = [(''CT'', 30000), (''MRI'', 40000)]"
    by code_simp
  show ?thesis
    using h v per_type_sums_equal_totals [of example_prices "''Other''" None 1 31 example_diagnoses
        example_billing]
    by blast
qed

end
